theory Spec2Isabelle
  imports Complex_Main
begin

section \<open>Conventions of the embedding\<close>

text \<open>
  The development embeds the trading core of the backend: \<open>TradingService\<close>
  (trading.service.ts), \<open>BotService\<close> (bot.service.ts) and the ledger part of
  \<open>DepositService\<close>.

  \<^item> A JavaScript \<open>number\<close> that carries a SOL amount, a price or a slippage tolerance is
    an exact \<open>real\<close>; the rounding of IEEE doubles, \<open>NaN\<close> and the infinities are not
    modelled. Amounts sent to the order API are decimal strings of integers in the source
    and \<open>int\<close> here. A \<open>Date\<close> is its number of milliseconds.
  \<^item> An optional or nullable value is an \<open>option\<close>; \<open>!v\<close> and \<open>a || b\<close> follow
    JavaScript truthiness (an empty string and the number 0 are falsy).
  \<^item> A collaborator that performs network or key operations (price feed, order API,
    signer) is a field of the record \<open>world\<close>: what the call returns, or the error it
    throws. Every call made to the order API and the signer is recorded in a call list.
  \<^item> An \<open>async\<close> method is one state transformer from its call to its return; where the
    interleaving at \<open>await\<close> matters, the method is split at its first \<open>await\<close>.
  \<^item> Logging is omitted. Fields of two interfaces that share a name carry a prefix.
\<close>

subsection \<open>Truthiness\<close>

definition truthy :: "string option \<Rightarrow> bool" where
  "truthy v = (case v of None \<Rightarrow> False | Some s \<Rightarrow> s \<noteq> [])"

definition orElse :: "string option \<Rightarrow> string option \<Rightarrow> string option" where
  "orElse a b = (if truthy a then a else b)"

definition truthyNum :: "real option \<Rightarrow> bool" where
  "truthyNum v = (case v of None \<Rightarrow> False | Some x \<Rightarrow> x \<noteq> 0)"

subsection \<open>Strings\<close>

definition toUpperChar :: "char \<Rightarrow> char" where
  "toUpperChar c =
     (let n = (of_char c :: nat)
      in if 97 \<le> n \<and> n \<le> 122 then char_of (n - 32) else c)"

definition toUpperCase :: "string \<Rightarrow> string" where
  "toUpperCase s = map toUpperChar s"

text \<open>\<open>s.includes(sub)\<close>.\<close>

definition includesStr :: "string \<Rightarrow> string \<Rightarrow> bool" where
  "includesStr s sub =
     list_ex (\<lambda>i. take (length sub) (drop i s) = sub) [0 ..< Suc (length s)]"

text \<open>Decimal rendering of a natural number, and \<open>x.toFixed(2)\<close> in exact arithmetic.\<close>

definition digitChar :: "nat \<Rightarrow> char" where
  "digitChar d = char_of (48 + d)"

fun natToString :: "nat \<Rightarrow> string" where
  "natToString n =
     (if n < 10 then [digitChar n] else natToString (n div 10) @ [digitChar (n mod 10)])"

declare natToString.simps [simp del]

definition toFixed2 :: "real \<Rightarrow> string" where
  "toFixed2 x =
     (let n = nat (round (\<bar>x\<bar> * 100))
      in (if x < 0 then ''-'' else []) @ natToString (n div 100) @ ''.'' @
         [digitChar ((n div 10) mod 10), digitChar (n mod 10)])"

section \<open>Data model\<close>

datatype action = BUY | SELL

datatype position_status = OPEN | CLOSED

datatype session_status = PENDING_DEPOSIT | RUNNING | STOPPED | COMPLETED | FAILED

text \<open>
  \<open>Position\<close> of bot.service.ts; the object built by \<open>executeTradeForSession\<close> also
  carries \<open>orderId\<close> and \<open>transactionSignature\<close>. The field \<open>id\<close> is \<open>pos_id\<close>.
\<close>

record Position =
  pos_id :: string
  token :: string
  action :: action
  entryPrice :: real
  amount :: real
  solSpent :: real
  takeProfitPrice :: real
  stopLossPrice :: real
  status :: position_status
  createdAt :: int
  autoExitTime :: int
  orderId :: "string option"
  transactionSignature :: "string option"

record BotSession =
  sessionId :: string
  walletPublicKey :: string
  allocatedSol :: real
  remainingSol :: real
  tradesExecuted :: nat
  maxTrades :: nat
  sessionStatus :: session_status
  startedAt :: int
  positions :: "Position list"

record UserDeposit =
  userId :: string
  userWalletAddress :: string
  depositedSol :: real
  availableSol :: real
  totalTrades :: nat
  depositedAt :: int
  lastTradeAt :: "int option"

section \<open>Collaborators\<close>

text \<open>Errors thrown inside the services; \<open>Thrown\<close> is an error raised by a collaborator.\<close>

datatype error =
    MissingMintMapping string
  | PricesUnavailable string
  | WalletNotAvailable
  | NoTransactionReturned
  | SigningFailed "string option"
  | NoRequestId
  | ExitInsufficient real string
  | ExitSlippageExceeded real string
  | ExitTimeout
  | ExitInvalid string
  | ExitExecutionFailed string
  | Thrown string

record price_info =
  usdPrice :: "real option"
  decimals :: "nat option"

type_synonym prices = "string \<rightharpoonup> price_info"

record CreateOrderParams =
  inputMint :: string
  outputMint :: string
  maker :: string
  payer :: string
  makingAmount :: int
  takingAmount :: int
  slippageBps :: "real option"
  computeUnitPrice :: string
  wrapAndUnwrapSol :: bool

record order_response =
  transaction :: "string option"
  tx :: "string option"
  requestId :: "string option"
  rsp_orderId :: "string option"
  rsp_order :: "string option"

record signing_result =
  sign_success :: bool
  signedTransaction :: "string option"
  sign_error :: "string option"

record execution_result =
  exec_success :: bool
  signature :: "string option"
  txid :: "string option"
  exec_error :: "string option"
  exec_message :: "string option"

datatype call =
    FetchPrices "string list"
  | CreateOrder CreateOrderParams
  | SignTransaction string
  | ExecuteSignedTransaction string string

text \<open>
  What the outside answers during one invocation of a \<open>TradingService\<close> method:
  \<open>fetchPrices\<close> is the first \<open>fetchPricesBySymbols\<close> call and \<open>fetchCurrentPrices\<close> the
  second one of \<open>executeExitTrade\<close>; \<open>createOrder\<close> answers \<open>None\<close> for a \<open>null\<close> body;
  \<open>clock\<close> is \<open>Date.now()\<close> and \<open>freshId\<close> the suffix of a generated identifier
  (built from \<open>Date.now()\<close> and \<open>Math.random()\<close> in the source).
\<close>

record world =
  fetchPrices :: "error + prices"
  fetchCurrentPrices :: "error + prices"
  getPublicKey :: "string option"
  createOrder :: "CreateOrderParams \<Rightarrow> error + order_response option"
  signTransaction :: "string \<Rightarrow> error + signing_result"
  executeSignedTransaction :: "string \<Rightarrow> string \<Rightarrow> error + execution_result"
  clock :: int
  freshId :: string

subsection \<open>JupiterService: the symbol table\<close>

definition tokenSymbolToMint :: "(string \<times> string) list" where
  "tokenSymbolToMint =
     [(''SOL'', ''So11111111111111111111111111111111111111112''),
      (''USDC'', ''EPjFWdd5AufqSSqeM2qN1xzybapC8G4wEGGkZwyTDt1v''),
      (''BONK'', ''DezXAZ8z7PnrnRJjz3wXBoRgixCa6xjnB7YaB1pPB263''),
      (''PENGU'', ''2zMMhcVQEXDtdE6vsFS7S7D5oUodfJHE8vd1gnBouauv''),
      (''JUP'', ''JUPyiwrYJFskUPiHa7hkeR8VUtAeFoSYbKedZNsDvCN''),
      (''RAY'', ''4k3Dyjzvzp8eMZWUXbBCjEvwSkkk59S5iCNLY3QrkX6R''),
      (''PYTH'', ''HZ1JovNiVvGrGNiiYvEozEVgZ58xaU3RKwX8eACQBCt3''),
      (''TRUMP'', ''6p6xgHyF7AeE6TZkSmFsko444wqoP15icUSqi2jfGiPN''),
      (''JTO'', ''jtojtomepa8beP8AuQc6eXt5FriJwfFMwQx2v2f9mCL''),
      (''ORCA'', ''orcaEKTdK7LKz57vaAYr9QeNsVEPfiu6QeMU1kektZE'')]"

definition getDefaultTokenMap :: "string \<rightharpoonup> string" where
  "getDefaultTokenMap = map_of tokenSymbolToMint"

text \<open>\<open>prices[mint]?.usdPrice\<close> and \<open>prices[mint]?.decimals || 9\<close>.\<close>

definition usdPriceOf :: "prices \<Rightarrow> string \<Rightarrow> real option" where
  "usdPriceOf ps mint = (case ps mint of None \<Rightarrow> None | Some info \<Rightarrow> usdPrice info)"

definition decimalsOf :: "prices \<Rightarrow> string \<Rightarrow> nat" where
  "decimalsOf ps mint =
     (case ps mint of
        None \<Rightarrow> 9
      | Some info \<Rightarrow> (case decimals info of None \<Rightarrow> 9 | Some d \<Rightarrow> if d = 0 then 9 else d))"

text \<open>\<open>v || dflt\<close> on an optional number.\<close>

definition numOr :: "real option \<Rightarrow> real \<Rightarrow> real" where
  "numOr v dflt = (case v of None \<Rightarrow> dflt | Some x \<Rightarrow> if x = 0 then dflt else x)"

section \<open>TradingService\<close>

record TradingService =
  isExecutingTrade :: bool
  tradesExecutedInSession :: nat

datatype message =
    AnotherTradeExecuting
  | ErrorMessage error
  | EntryProcessed action string
  | ExitExecuted string string
  | ExitOrderCreated string string
  | SessionNotFound
  | NoSignalsAvailable
  | NoSupportedTokens

record trade_result =
  success :: bool
  executed :: bool
  message :: message
  position :: "Position option"
  res_orderId :: "string option"
  res_transactionSignature :: "string option"

record exit_request =
  x_positionId :: string
  x_token :: string
  x_action :: action
  x_amount :: real
  x_slippageBps :: real
  x_reason :: string

record exit_result =
  x_success :: bool
  x_message :: message
  x_orderId :: "string option"
  x_transactionSignature :: "string option"

definition lamportsPerSol :: real where
  "lamportsPerSol = 1000000000"

subsection \<open>executeTradeForSession\<close>

text \<open>
  The \<open>try\<close> block of \<open>executeTradeForSession\<close> (lines 102 to 236): the calls made and
  either the error thrown or the value returned.
\<close>

definition entryBody ::
  "world \<Rightarrow> string \<Rightarrow> action \<Rightarrow> real \<Rightarrow> call list \<times> (error + trade_result)" where
  "entryBody w tok act tradeSizeSol =
     (let symbol = toUpperCase tok;
          tokenMint = getDefaultTokenMap symbol;
          solMint = getDefaultTokenMap ''SOL''
      in if \<not> truthy tokenMint \<or> \<not> truthy solMint then ([], Inl (MissingMintMapping symbol))
      else
        let c1 = [FetchPrices [symbol, ''SOL'']]
        in case fetchPrices w of
             Inl e \<Rightarrow> (c1, Inl e)
           | Inr ps \<Rightarrow>
        let tokenPrice = usdPriceOf ps (the tokenMint);
            solPrice = usdPriceOf ps (the solMint);
            tokenDecimals = decimalsOf ps (the tokenMint)
        in if \<not> truthyNum tokenPrice \<or> \<not> truthyNum solPrice
           then (c1, Inl (PricesUnavailable symbol))
        else
        let inMint = (if act = BUY then the solMint else the tokenMint);
            outMint = (if act = BUY then the tokenMint else the solMint);
            makingAmountLamports = \<lfloor>tradeSizeSol * lamportsPerSol\<rfloor>;
            estimatedTokens = (tradeSizeSol * the solPrice) / the tokenPrice;
            tokenSmallestUnits = \<lfloor>estimatedTokens * 10 ^ tokenDecimals\<rfloor>;
            making = (if act = BUY then makingAmountLamports else tokenSmallestUnits);
            taking = (if act = BUY then tokenSmallestUnits else makingAmountLamports)
        in if \<not> truthy (getPublicKey w) then (c1, Inl WalletNotAvailable)
        else
        let params = \<lparr>inputMint = inMint, outputMint = outMint,
                       maker = the (getPublicKey w), payer = the (getPublicKey w),
                       makingAmount = making, takingAmount = taking,
                       slippageBps = None, computeUnitPrice = ''auto'',
                       wrapAndUnwrapSol = True\<rparr>;
            c2 = c1 @ [CreateOrder params]
        in case createOrder w params of
             Inl e \<Rightarrow> (c2, Inl e)
           | Inr None \<Rightarrow> (c2, Inl (Thrown ''TypeError''))
           | Inr (Some ord) \<Rightarrow>
        let trans = orElse (transaction ord) (tx ord)
        in if \<not> truthy trans then (c2, Inl NoTransactionReturned)
        else
        let c3 = c2 @ [SignTransaction (the trans)]
        in case signTransaction w (the trans) of
             Inl e \<Rightarrow> (c3, Inl e)
           | Inr signingResult \<Rightarrow>
        if \<not> sign_success signingResult \<or> \<not> truthy (signedTransaction signingResult)
        then (c3, Inl (SigningFailed (sign_error signingResult)))
        else
        let reqId = the (orElse (requestId ord) (Some (''req_'' @ freshId w)));
            c4 = c3 @ [ExecuteSignedTransaction (the (signedTransaction signingResult)) reqId]
        in case executeSignedTransaction w (the (signedTransaction signingResult)) reqId of
             Inl e \<Rightarrow> (c4, Inl e)
           | Inr executionResult \<Rightarrow>
        let now = clock w;
            pos = \<lparr>pos_id = ''pos_'' @ freshId w,
                    token = tok,
                    action = act,
                    entryPrice = the tokenPrice,
                    amount = (if act = BUY then real_of_int taking / 10 ^ tokenDecimals
                              else real_of_int making / 10 ^ tokenDecimals),
                    solSpent = tradeSizeSol,
                    takeProfitPrice = the tokenPrice * (if act = BUY then 103 / 100 else 97 / 100),
                    stopLossPrice = the tokenPrice * (if act = BUY then 95 / 100 else 105 / 100),
                    status = OPEN,
                    createdAt = now,
                    autoExitTime = now + 3 * 60 * 1000,
                    orderId = orElse (rsp_orderId ord) (Some (''order_'' @ freshId w)),
                    transactionSignature =
                      orElse (signature executionResult) (txid executionResult)\<rparr>
        in (c4, Inr \<lparr>success = True, executed = True,
                      message = EntryProcessed act tok,
                      position = Some pos,
                      res_orderId = orElse (rsp_orderId ord) (rsp_order ord),
                      res_transactionSignature =
                        orElse (signature executionResult) (Some ''pending'')\<rparr>))"

text \<open>The \<open>catch\<close> clause: any error becomes a failure result carrying its message.\<close>

definition entryCatch :: "error + trade_result \<Rightarrow> trade_result" where
  "entryCatch r =
     (case r of
        Inl e \<Rightarrow> \<lparr>success = False, executed = False, message = ErrorMessage e,
                   position = None, res_orderId = None, res_transactionSignature = None\<rparr>
      | Inr res \<Rightarrow> res)"

text \<open>
  The whole method: the test of the flag, the acquisition, the \<open>try\<close> block, and the
  \<open>finally\<close> clause that clears the flag.
\<close>

definition executeTradeForSession ::
  "TradingService \<Rightarrow> world \<Rightarrow> string \<Rightarrow> action \<Rightarrow> real
     \<Rightarrow> TradingService \<times> call list \<times> trade_result" where
  "executeTradeForSession st w tok act tradeSizeSol =
     (if isExecutingTrade st
      then (st, [], \<lparr>success = False, executed = False, message = AnotherTradeExecuting,
                     position = None, res_orderId = None, res_transactionSignature = None\<rparr>)
      else
        let st1 = st\<lparr>isExecutingTrade := True\<rparr>;
            (calls, r) = entryBody w tok act tradeSizeSol
        in (st1\<lparr>isExecutingTrade := False\<rparr>, calls, entryCatch r))"

subsection \<open>executeExitTrade\<close>

definition minimumSlippageBps :: real where
  "minimumSlippageBps = 300"

text \<open>
  The \<open>try\<close> block of \<open>executeExitTrade\<close> (lines 262 to 392). \<open>BigInt(Math.floor(x))\<close> is
  the integer \<open>\<lfloor>x\<rfloor>\<close>, and \<open>BigInt(Math.pow(10, d))\<close> is \<open>10 ^ d\<close>.
\<close>

definition exitBody :: "world \<Rightarrow> exit_request \<Rightarrow> call list \<times> (error + exit_result)" where
  "exitBody w request =
     (let actualSlippageBps = max (x_slippageBps request) minimumSlippageBps;
          symbol = toUpperCase (x_token request);
          tokenMint = getDefaultTokenMap symbol;
          solMint = getDefaultTokenMap ''SOL''
      in if \<not> truthy tokenMint \<or> \<not> truthy solMint then ([], Inl (MissingMintMapping symbol))
      else
        let c1 = [FetchPrices [symbol, ''SOL'']]
        in case fetchPrices w of
             Inl e \<Rightarrow> (c1, Inl e)
           | Inr ps \<Rightarrow>
        let tokenDecimals = decimalsOf ps (the tokenMint);
            inMint = (if x_action request = BUY then the solMint else the tokenMint);
            outMint = (if x_action request = BUY then the tokenMint else the solMint)
        in if \<not> truthy (getPublicKey w) then (c1, Inl WalletNotAvailable)
        else
        let exitAmount = x_amount request;
            exitAmountBigInt = \<lfloor>exitAmount\<rfloor>;
            decimalMultiplier = 10 ^ tokenDecimals;
            amountSmallestUnits = exitAmountBigInt * decimalMultiplier;
            c2 = c1 @ [FetchPrices [symbol, ''SOL'']]
        in case fetchCurrentPrices w of
             Inl e \<Rightarrow> (c2, Inl e)
           | Inr cps \<Rightarrow>
        let currentTokenPrice = numOr (usdPriceOf cps (the tokenMint)) (1 / 10);
            currentSolPrice = numOr (usdPriceOf cps (the solMint)) 235;
            estimatedSolValue = (exitAmount * currentTokenPrice) / currentSolPrice;
            estimatedSolLamports = \<lfloor>estimatedSolValue * 1000000000\<rfloor>;
            params = \<lparr>inputMint = inMint, outputMint = outMint,
                       maker = the (getPublicKey w), payer = the (getPublicKey w),
                       makingAmount = amountSmallestUnits,
                       takingAmount = estimatedSolLamports,
                       slippageBps = Some actualSlippageBps, computeUnitPrice = ''auto'',
                       wrapAndUnwrapSol = True\<rparr>;
            c3 = c2 @ [CreateOrder params]
        in case createOrder w params of
             Inl e \<Rightarrow> (c3, Inl e)
           | Inr None \<Rightarrow> (c3, Inl (Thrown ''TypeError''))
           | Inr (Some ord) \<Rightarrow>
        let trans = orElse (transaction ord) (tx ord)
        in if \<not> truthy trans then (c3, Inl NoTransactionReturned)
        else
        let c4 = c3 @ [SignTransaction (the trans)]
        in case signTransaction w (the trans) of
             Inl e \<Rightarrow> (c4, Inl e)
           | Inr signingResult \<Rightarrow>
        if \<not> sign_success signingResult \<or> \<not> truthy (signedTransaction signingResult)
        then (c4, Inl (SigningFailed (sign_error signingResult)))
        else if \<not> truthy (requestId ord) then (c4, Inl NoRequestId)
        else
        let c5 = c4 @ [ExecuteSignedTransaction (the (signedTransaction signingResult))
                         (the (requestId ord))]
        in case executeSignedTransaction w (the (signedTransaction signingResult))
                  (the (requestId ord)) of
             Inl e \<Rightarrow> (c5, Inl e)
           | Inr executionResult \<Rightarrow>
        if \<not> exec_success executionResult
        then
          let errorMsg = the (orElse (exec_error executionResult)
                               (orElse (exec_message executionResult)
                                  (Some ''Unknown exit execution error'')))
          in (c5, Inl (if includesStr errorMsg ''insufficient''
                         then ExitInsufficient exitAmount symbol
                       else if includesStr errorMsg ''slippage''
                         then ExitSlippageExceeded (actualSlippageBps / 100) symbol
                       else if includesStr errorMsg ''timeout'' then ExitTimeout
                       else if includesStr errorMsg ''invalid'' then ExitInvalid symbol
                       else ExitExecutionFailed errorMsg))
        else (c5, Inr \<lparr>x_success = True,
                        x_message = ExitExecuted (x_token request) (x_reason request),
                        x_orderId = Some (''swap_'' @ freshId w),
                        x_transactionSignature = signature executionResult\<rparr>))"

definition exitCatch :: "error + exit_result \<Rightarrow> exit_result" where
  "exitCatch r =
     (case r of
        Inl e \<Rightarrow> \<lparr>x_success = False, x_message = ErrorMessage e,
                   x_orderId = None, x_transactionSignature = None\<rparr>
      | Inr res \<Rightarrow> res)"

text \<open>
  The whole method. It is a method of the object that holds \<open>isExecutingTrade\<close>; the
  source neither reads nor writes the flag here, so the state is returned as it came.
\<close>

definition executeExitTrade ::
  "TradingService \<Rightarrow> world \<Rightarrow> exit_request \<Rightarrow> TradingService \<times> call list \<times> exit_result" where
  "executeExitTrade st w request =
     (let (calls, r) = exitBody w request in (st, calls, exitCatch r))"

subsection \<open>createExitOrder\<close>

record create_result =
  c_success :: bool
  c_orderId :: "string option"
  c_transaction :: "string option"
  c_requestId :: "string option"
  c_message :: message

text \<open>
  \<open>createExitOrder\<close> (lines 538 to 631); the maker is the \<open>walletPublicKey\<close> of the
  request, here the argument \<open>wallet\<close>.
\<close>

definition createExitOrderBody ::
  "world \<Rightarrow> exit_request \<Rightarrow> string \<Rightarrow> call list \<times> (error + create_result)" where
  "createExitOrderBody w request wallet =
     (let actualSlippageBps = max (x_slippageBps request) minimumSlippageBps;
          symbol = toUpperCase (x_token request);
          tokenMint = getDefaultTokenMap symbol;
          solMint = getDefaultTokenMap ''SOL''
      in if \<not> truthy tokenMint \<or> \<not> truthy solMint then ([], Inl (MissingMintMapping symbol))
      else
        let c1 = [FetchPrices [symbol, ''SOL'']]
        in case fetchPrices w of
             Inl e \<Rightarrow> (c1, Inl e)
           | Inr ps \<Rightarrow>
        let tokenPrice = usdPriceOf ps (the tokenMint);
            solPrice = usdPriceOf ps (the solMint);
            tokenDecimals = decimalsOf ps (the tokenMint)
        in if \<not> truthyNum tokenPrice \<or> \<not> truthyNum solPrice
           then (c1, Inl (PricesUnavailable symbol))
        else
        let inMint = (if x_action request = BUY then the solMint else the tokenMint);
            outMint = (if x_action request = BUY then the tokenMint else the solMint);
            safeAmount = x_amount request * (98 / 100);
            amountSmallestUnits = \<lfloor>safeAmount * 10 ^ tokenDecimals\<rfloor>;
            estimatedSolValue = (safeAmount * the tokenPrice) / the solPrice;
            estimatedSolLamports = \<lfloor>estimatedSolValue * 1000000000\<rfloor>;
            params = \<lparr>inputMint = inMint, outputMint = outMint,
                       maker = wallet, payer = wallet,
                       makingAmount = amountSmallestUnits,
                       takingAmount = estimatedSolLamports,
                       slippageBps = Some actualSlippageBps, computeUnitPrice = ''auto'',
                       wrapAndUnwrapSol = True\<rparr>;
            c2 = c1 @ [CreateOrder params]
        in case createOrder w params of
             Inl e \<Rightarrow> (c2, Inl e)
           | Inr None \<Rightarrow> (c2, Inl (Thrown ''TypeError''))
           | Inr (Some ord) \<Rightarrow>
        let trans = orElse (transaction ord) (tx ord)
        in if \<not> truthy trans then (c2, Inl NoTransactionReturned)
        else (c2, Inr \<lparr>c_success = True,
                        c_orderId = rsp_orderId ord,
                        c_transaction = trans,
                        c_requestId = Some (''exit_req_'' @ freshId w),
                        c_message = ExitOrderCreated (x_token request) (x_reason request)\<rparr>))"

definition createExitOrder ::
  "world \<Rightarrow> exit_request \<Rightarrow> string \<Rightarrow> call list \<times> create_result" where
  "createExitOrder w request wallet =
     (let (calls, r) = createExitOrderBody w request wallet
      in (calls, case r of
                   Inl e \<Rightarrow> \<lparr>c_success = False, c_orderId = None, c_transaction = None,
                              c_requestId = None, c_message = ErrorMessage e\<rparr>
                 | Inr res \<Rightarrow> res))"

section \<open>DepositService: the fund ledger\<close>

type_synonym ledger = "string \<rightharpoonup> UserDeposit"

record deposit_tx_result =
  d_success :: bool
  d_transaction :: "string option"
  d_botWalletAddress :: "string option"

text \<open>
  \<open>createDepositTransaction\<close>: \<open>botWalletAddress\<close> is what \<open>getBotWalletAddress()\<close> gives
  and \<open>build\<close> the outcome of building and serialising the transfer (key parsing and
  the blockhash request may throw). Message texts of this service are left out.
\<close>

definition createDepositTransaction ::
  "string option \<Rightarrow> error + string \<Rightarrow> real \<Rightarrow> deposit_tx_result" where
  "createDepositTransaction botWalletAddress build amountSol =
     (if \<not> truthy botWalletAddress
      then \<lparr>d_success = False, d_transaction = None, d_botWalletAddress = None\<rparr>
      else if amountSol \<le> 0
      then \<lparr>d_success = False, d_transaction = None, d_botWalletAddress = None\<rparr>
      else case build of
             Inl e \<Rightarrow> \<lparr>d_success = False, d_transaction = None, d_botWalletAddress = None\<rparr>
           | Inr transactionBase64 \<Rightarrow>
               \<lparr>d_success = True, d_transaction = Some transactionBase64,
                d_botWalletAddress = botWalletAddress\<rparr>)"

record process_result =
  p_success :: bool
  p_signature :: "string option"
  depositBalance :: "real option"

text \<open>\<open>processDeposit\<close>: \<open>send\<close> is the outcome of sending and confirming the transaction.\<close>

definition processDeposit ::
  "ledger \<Rightarrow> error + string \<Rightarrow> int \<Rightarrow> string \<Rightarrow> real \<Rightarrow> ledger \<times> process_result" where
  "processDeposit deposits send now userWallet amountSol =
     (case send of
        Inl e \<Rightarrow> (deposits, \<lparr>p_success = False, p_signature = None, depositBalance = None\<rparr>)
      | Inr sig \<Rightarrow>
          let deposits1 =
                (case deposits userWallet of
                   Some existingDeposit \<Rightarrow>
                     deposits(userWallet \<mapsto> existingDeposit
                       \<lparr>depositedSol := depositedSol existingDeposit + amountSol,
                        availableSol := availableSol existingDeposit + amountSol\<rparr>)
                 | None \<Rightarrow>
                     deposits(userWallet \<mapsto>
                       \<lparr>userId = userWallet, userWalletAddress = userWallet,
                        depositedSol = amountSol, availableSol = amountSol,
                        totalTrades = 0, depositedAt = now, lastTradeAt = None\<rparr>))
          in (deposits1, \<lparr>p_success = True, p_signature = Some sig,
                          depositBalance = map_option availableSol (deposits1 userWallet)\<rparr>))"

definition reserveFundsForTrading ::
  "ledger \<Rightarrow> int \<Rightarrow> string \<Rightarrow> real \<Rightarrow> ledger \<times> bool" where
  "reserveFundsForTrading deposits now userWallet amountSol =
     (case deposits userWallet of
        None \<Rightarrow> (deposits, False)
      | Some deposit \<Rightarrow>
          if availableSol deposit < amountSol then (deposits, False)
          else (deposits(userWallet \<mapsto> deposit
                  \<lparr>availableSol := availableSol deposit - amountSol,
                   totalTrades := totalTrades deposit + 1,
                   lastTradeAt := Some now\<rparr>), True))"

definition returnUnusedFunds :: "ledger \<Rightarrow> string \<Rightarrow> real \<Rightarrow> ledger" where
  "returnUnusedFunds deposits userWallet amountSol =
     (case deposits userWallet of
        None \<Rightarrow> deposits
      | Some deposit \<Rightarrow>
          deposits(userWallet \<mapsto> deposit\<lparr>availableSol := availableSol deposit + amountSol\<rparr>))"

section \<open>BotService\<close>

text \<open>
  The state reachable from a \<open>BotService\<close>: its own session map, the ledger of the
  \<open>DepositService\<close> and the state of the \<open>TradingService\<close> it calls.
\<close>

record system =
  activeSessions :: "string \<rightharpoonup> BotSession"
  userDeposits :: ledger
  tradingService :: TradingService

definition putSession :: "system \<Rightarrow> string \<Rightarrow> BotSession \<Rightarrow> system" where
  "putSession sys sid session = sys\<lparr>activeSessions := (activeSessions sys)(sid \<mapsto> session)\<rparr>"

subsection \<open>launchBot, confirmDepositAndStartTrading, stopBot\<close>

text \<open>
  \<open>launchBot\<close>: \<open>newId\<close> is the generated session id. The result is the \<open>success\<close> field
  and the session id.
\<close>

definition launchBot ::
  "system \<Rightarrow> string option \<Rightarrow> error + string \<Rightarrow> string \<Rightarrow> int \<Rightarrow> string \<Rightarrow> real
     \<Rightarrow> system \<times> bool \<times> string option" where
  "launchBot sys botWalletAddress build newId now wallet allocated =
     (let depositResult = createDepositTransaction botWalletAddress build allocated
      in if \<not> d_success depositResult \<or> \<not> truthy (d_transaction depositResult)
         then (sys, False, None)
         else
           let session = \<lparr>sessionId = newId, walletPublicKey = wallet,
                          allocatedSol = allocated, remainingSol = allocated,
                          tradesExecuted = 0, maxTrades = 5,
                          sessionStatus = PENDING_DEPOSIT, startedAt = now,
                          positions = []\<rparr>
           in (putSession sys newId session, True, Some newId))"

text \<open>
  \<open>confirmDepositAndStartTrading\<close> up to the call that starts the trading cadence; the
  cadence itself is \<open>startTradingForSession\<close> below. The deposit and the reservation use
  the wallet and the amount of the request.
\<close>

definition confirmDepositAndStartTrading ::
  "system \<Rightarrow> error + string \<Rightarrow> int \<Rightarrow> string \<Rightarrow> string \<Rightarrow> real \<Rightarrow> system \<times> bool" where
  "confirmDepositAndStartTrading sys send now sid userWallet allocated =
     (case activeSessions sys sid of
        None \<Rightarrow> (sys, False)
      | Some session \<Rightarrow>
          if sessionStatus session \<noteq> PENDING_DEPOSIT then (sys, False)
          else
            let (deposits1, depositResult) =
                  processDeposit (userDeposits sys) send now userWallet allocated;
                sys1 = sys\<lparr>userDeposits := deposits1\<rparr>
            in if \<not> p_success depositResult
               then (putSession sys1 sid (session\<lparr>sessionStatus := FAILED\<rparr>), False)
               else
                 let (deposits2, reserved) =
                       reserveFundsForTrading deposits1 now userWallet allocated;
                     sys2 = sys1\<lparr>userDeposits := deposits2\<rparr>
                 in if \<not> reserved
                    then (putSession sys2 sid (session\<lparr>sessionStatus := FAILED\<rparr>), False)
                    else (putSession sys2 sid (session\<lparr>sessionStatus := RUNNING\<rparr>), True))"

datatype stop_result =
    StopNotFound
  | Stopped session_status nat real bool

text \<open>
  \<open>stopBot\<close>; \<open>Stopped\<close> carries the \<open>status\<close>, \<open>tradesExecuted\<close>, \<open>remainingSol\<close> and
  \<open>fundsReturned\<close> fields of the successful answer.
\<close>

definition stopBot :: "system \<Rightarrow> string \<Rightarrow> system \<times> stop_result" where
  "stopBot sys sid =
     (case activeSessions sys sid of
        None \<Rightarrow> (sys, StopNotFound)
      | Some session0 \<Rightarrow>
          let session = session0\<lparr>sessionStatus := STOPPED\<rparr>;
              sys1 = putSession sys sid session;
              sys2 = (if remainingSol session > 0
                      then sys1\<lparr>userDeposits :=
                             returnUnusedFunds (userDeposits sys1) (walletPublicKey session)
                               (remainingSol session)\<rparr>
                      else sys1)
          in (sys2, Stopped (sessionStatus session) (tradesExecuted session)
                      (remainingSol session) (remainingSol session > 0)))"

subsection \<open>Entry signals\<close>

record latest_signal =
  sig_token :: string
  sig_action :: int
  sig_confidence :: "real option"
  sig_urgency :: "real option"
  sig_price :: "real option"
  sig_explanation :: "string option"

record signals_response =
  sig_success :: bool
  sig_data :: "latest_signal option list option"

definition nullish0 :: "real option \<Rightarrow> real" where
  "nullish0 v = (case v of None \<Rightarrow> 0 | Some x \<Rightarrow> x)"

definition candidates :: "latest_signal option list \<Rightarrow> latest_signal list" where
  "candidates dat =
     filter (\<lambda>s. getDefaultTokenMap (toUpperCase (sig_token s)) \<noteq> None)
       (filter (\<lambda>s. sig_action s \<noteq> 0) (List.map_filter (\<lambda>s. s) dat))"

definition score :: "latest_signal \<Rightarrow> real" where
  "score sig =
     (let urgency = nullish0 (sig_urgency sig);
          confidence = nullish0 (sig_confidence sig);
          bias = (if sig_action sig = 1 then 1 / 100 else 0)
      in (urgency * (1 / 2)) + (confidence * (1 / 2)) + bias)"

text \<open>The stable sort by descending score, then element 0.\<close>

definition best :: "latest_signal list \<Rightarrow> latest_signal" where
  "best cs = hd (sort_key (\<lambda>s. - score s) cs)"

subsection \<open>analyzeAndTradeForSession and startTradingForSession\<close>

definition noTrade :: "message \<Rightarrow> bool \<Rightarrow> trade_result" where
  "noTrade m ok = \<lparr>success = ok, executed = False, message = m, position = None,
                  res_orderId = None, res_transactionSignature = None\<rparr>"

text \<open>
  \<open>analyzeAndTradeForSession\<close>: \<open>signals\<close> is the outcome of \<open>refreshThenGetSignals()\<close>
  (\<open>Inl\<close> when it throws, \<open>None\<close> for a \<open>null\<close> body). An error leaves the method.
\<close>

definition analyzeAndTradeForSession ::
  "system \<Rightarrow> string \<Rightarrow> error + signals_response option \<Rightarrow> world
     \<Rightarrow> system \<times> call list \<times> (error + trade_result)" where
  "analyzeAndTradeForSession sys sid signals w =
     (case activeSessions sys sid of
        None \<Rightarrow> (sys, [], Inr (noTrade SessionNotFound False))
      | Some session \<Rightarrow>
     (case signals of
        Inl e \<Rightarrow> (sys, [], Inl e)
      | Inr None \<Rightarrow> (sys, [], Inr (noTrade NoSignalsAvailable False))
      | Inr (Some resp) \<Rightarrow>
          if \<not> sig_success resp \<or> sig_data resp = None \<or> the (sig_data resp) = []
          then (sys, [], Inr (noTrade NoSignalsAvailable False))
          else
            let cs = candidates (the (sig_data resp))
            in if cs = [] then (sys, [], Inr (noTrade NoSupportedTokens True))
               else
                 let b = best cs;
                     maxTradeSize = remainingSol session * (9 / 10);
                     (ts1, calls, result) =
                       executeTradeForSession (tradingService sys) w (sig_token b) BUY
                         maxTradeSize;
                     sys1 = sys\<lparr>tradingService := ts1\<rparr>
                 in if executed result \<and> position result \<noteq> None
                    then (putSession sys1 sid
                            (session\<lparr>positions := positions session @ [the (position result)],
                                     remainingSol := remainingSol session
                                        - solSpent (the (position result))\<rparr>),
                          calls, Inr result)
                    else (sys1, calls, Inr result)))"

text \<open>
  One run of \<open>startTradingForSession\<close>. The last component is the delay in milliseconds
  after which the method has scheduled itself again, if it has.
\<close>

definition startTradingForSession ::
  "system \<Rightarrow> string \<Rightarrow> error + signals_response option \<Rightarrow> world
     \<Rightarrow> system \<times> call list \<times> nat option" where
  "startTradingForSession sys sid signals w =
     (case activeSessions sys sid of
        None \<Rightarrow> (sys, [], None)
      | Some session \<Rightarrow>
          if sessionStatus session \<noteq> RUNNING then (sys, [], None)
          else if tradesExecuted session \<ge> maxTrades session
          then
            let session1 = session\<lparr>sessionStatus := COMPLETED\<rparr>;
                sys1 = putSession sys sid session1
            in (if remainingSol session1 > 0
                then sys1\<lparr>userDeposits :=
                       returnUnusedFunds (userDeposits sys1) (walletPublicKey session1)
                         (remainingSol session1)\<rparr>
                else sys1, [], None)
          else if remainingSol session < 1 / 100
          then (putSession sys sid (session\<lparr>sessionStatus := COMPLETED\<rparr>), [], None)
          else
            (case analyzeAndTradeForSession sys sid signals w of
               (sys1, calls, Inl e) \<Rightarrow> (sys1, calls, Some (2 * 60 * 1000))
             | (sys1, calls, Inr result) \<Rightarrow>
                 let session1 = the (activeSessions sys1 sid);
                     session2 = (if executed result
                                 then session1\<lparr>tradesExecuted := tradesExecuted session1 + 1\<rparr>
                                 else session1);
                     sys2 = putSession sys1 sid session2
                 in (sys2, calls,
                     if sessionStatus session2 = RUNNING
                        \<and> tradesExecuted session2 < maxTrades session2
                     then (if \<not> list_ex (\<lambda>p. status p = OPEN) (positions session2)
                           then Some (2 * 60 * 1000) else Some (10 * 60 * 1000))
                     else None)))"

subsection \<open>Position monitor\<close>

text \<open>\<open>shouldExitPosition\<close>; \<open>now\<close> is the \<open>new Date()\<close> it reads.\<close>

definition shouldExitPosition :: "int \<Rightarrow> Position \<Rightarrow> real \<Rightarrow> bool \<times> string" where
  "shouldExitPosition now pos currentPrice =
     (if currentPrice \<ge> takeProfitPrice pos then (True, ''3% Take Profit reached'')
      else if currentPrice \<le> stopLossPrice pos then (True, ''5% Stop Loss reached'')
      else if now \<ge> autoExitTime pos
      then
        let changePercent =
              toFixed2 ((currentPrice - entryPrice pos) / entryPrice pos * 100)
        in (True, ''3-minute timeout reached ('' @ changePercent @ ''% change)'')
      else (False, []))"

subsection \<open>Exit with slippage retries\<close>

definition slippagePercentages :: "nat list" where
  "slippagePercentages = [3, 5, 7, 10, 15, 20]"

datatype ladder_event =
    ExitAttempt exit_request
  | Wait nat

text \<open>The request of the attempt made at \<open>slippagePercent\<close>.\<close>

definition exitRequest :: "Position \<Rightarrow> string \<Rightarrow> nat \<Rightarrow> exit_request" where
  "exitRequest pos reason slippagePercent =
     (let bps = slippagePercent * 100
      in \<lparr>x_positionId = pos_id pos,
          x_token = token pos,
          x_action = (if action pos = BUY then SELL else BUY),
          x_amount = amount pos,
          x_slippageBps = real bps,
          x_reason = reason @ '' ('' @ natToString slippagePercent @ ''% slippage)''\<rparr>)"

text \<open>
  The \<open>for\<close> loop of \<open>BotService.executeExitTrade\<close> from index \<open>i\<close> on, over the
  percentages still to try, followed by the statements after the loop. \<open>exec i request\<close>
  is what the \<open>i\<close>-th call of \<open>tradingService.executeExitTrade\<close> does: \<open>Inr\<close> the answer,
  \<open>Inl\<close> an error thrown. The events are the attempts issued and the delays waited.
\<close>

fun exitLoop ::
  "(nat \<Rightarrow> exit_request \<Rightarrow> error + exit_result) \<Rightarrow> Position \<Rightarrow> string \<Rightarrow> nat \<Rightarrow> nat list
     \<Rightarrow> ladder_event list \<times> Position" where
  "exitLoop exec pos reason i [] = ([], pos\<lparr>status := OPEN\<rparr>)"
| "exitLoop exec pos reason i (slippagePercent # rest) =
     (let request = exitRequest pos reason slippagePercent
      in case exec i request of
           Inr result \<Rightarrow>
             if x_success result
             then ([ExitAttempt request], pos\<lparr>status := CLOSED\<rparr>)
             else
               let (events, pos1) = exitLoop exec pos reason (i + 1) rest
               in (ExitAttempt request # events, pos1)
         | Inl e \<Rightarrow>
             let waited = (if i < length slippagePercentages - 1 then [Wait 3000] else []);
                 (events, pos1) = exitLoop exec pos reason (i + 1) rest
             in (ExitAttempt request # waited @ events, pos1))"

definition botExecuteExitTrade ::
  "(nat \<Rightarrow> exit_request \<Rightarrow> error + exit_result) \<Rightarrow> Position \<Rightarrow> string
     \<Rightarrow> ladder_event list \<times> Position" where
  "botExecuteExitTrade exec pos reason =
     exitLoop exec pos reason 0 slippagePercentages"

text \<open>
  The executor the running service passes to the loop: the \<open>i\<close>-th attempt is
  \<open>TradingService.executeExitTrade\<close> in the world \<open>ws i\<close>; it answers and never throws.
\<close>

definition tradingExec ::
  "TradingService \<Rightarrow> (nat \<Rightarrow> world) \<Rightarrow> nat \<Rightarrow> exit_request \<Rightarrow> error + exit_result" where
  "tradingExec ts ws i request = Inr (snd (snd (executeExitTrade ts (ws i) request)))"

text \<open>
  The body of the loop of \<open>checkExitConditions\<close> for one open position: the price
  lookup, the exit test and the exit.
\<close>

definition checkExitPosition ::
  "(nat \<Rightarrow> exit_request \<Rightarrow> error + exit_result) \<Rightarrow> prices \<Rightarrow> int \<Rightarrow> Position
     \<Rightarrow> ladder_event list \<times> Position" where
  "checkExitPosition exec ps now pos =
     (let currentPrice = (case getDefaultTokenMap (token pos) of
                            None \<Rightarrow> None
                          | Some tokenMint \<Rightarrow> usdPriceOf ps tokenMint)
      in if \<not> truthyNum currentPrice then ([], pos)
         else
           let (exit, reason) = shouldExitPosition now pos (the currentPrice)
           in if exit then botExecuteExitTrade exec pos reason else ([], pos))"

text \<open>The monitor handling the \<open>k\<close>-th position of a session, when that position is open.\<close>

definition monitorPosition ::
  "system \<Rightarrow> string \<Rightarrow> nat \<Rightarrow> (nat \<Rightarrow> world) \<Rightarrow> prices \<Rightarrow> int \<Rightarrow> system" where
  "monitorPosition sys sid k ws ps now =
     (case activeSessions sys sid of
        None \<Rightarrow> sys
      | Some session \<Rightarrow>
          if k < length (positions session) \<and> status (positions session ! k) = OPEN
          then putSession sys sid
                 (session\<lparr>positions := (positions session)
                    [k := snd (checkExitPosition (tradingExec (tradingService sys) ws) ps now
                                (positions session ! k))]\<rparr>)
          else sys)"

subsection \<open>Runs of the service\<close>

definition initial :: system where
  "initial = \<lparr>activeSessions = Map.empty, userDeposits = Map.empty,
              tradingService = \<lparr>isExecutingTrade = False, tradesExecutedInSession = 0\<rparr>\<rparr>"

text \<open>
  The states the service reaches from start-up by its operations, each run from its call
  to its return with any arguments and any answers of the collaborators. The ledger and
  the trading service are also used by other callers (the deposit endpoints, a trade in
  flight that holds the flag): the last two rules let them change in any way.
\<close>

inductive reachable :: "system \<Rightarrow> bool" where
  start: "reachable initial"
| launch: "reachable sys \<Longrightarrow>
     reachable (fst (launchBot sys botWalletAddress build newId now wallet allocated))"
| confirm: "reachable sys \<Longrightarrow>
     reachable (fst (confirmDepositAndStartTrading sys send now sid userWallet allocated))"
| stop: "reachable sys \<Longrightarrow> reachable (fst (stopBot sys sid))"
| trade: "reachable sys \<Longrightarrow> reachable (fst (startTradingForSession sys sid signals w))"
| monitor: "reachable sys \<Longrightarrow> reachable (monitorPosition sys sid k ws ps now)"
| ledger: "reachable sys \<Longrightarrow> reachable (sys\<lparr>userDeposits := deposits\<rparr>)"
| service: "reachable sys \<Longrightarrow> reachable (sys\<lparr>tradingService := ts\<rparr>)"

subsection \<open>Interleaving of trade executions\<close>

text \<open>
  An \<open>async\<close> method runs without interruption up to its first \<open>await\<close>. In
  \<open>executeTradeForSession\<close> the test and the setting of \<open>isExecutingTrade\<close> (lines 92
  to 100) come before the first \<open>await\<close>: they are the step \<open>beginEntry\<close>, which
  gives \<open>None\<close> when the call is answered at once. The \<open>finally\<close> clause is \<open>endEntry\<close>.
  \<open>executeExitTrade\<close> has no step on the flag. \<open>inFlight st n m\<close>: the service can be in
  state \<open>st\<close> with \<open>n\<close> entry executions and \<open>m\<close> exit executions called and not yet
  returned.
\<close>

definition beginEntry :: "TradingService \<Rightarrow> TradingService option" where
  "beginEntry st =
     (if isExecutingTrade st then None else Some (st\<lparr>isExecutingTrade := True\<rparr>))"

definition endEntry :: "TradingService \<Rightarrow> TradingService" where
  "endEntry st = st\<lparr>isExecutingTrade := False\<rparr>"

inductive inFlight :: "TradingService \<Rightarrow> nat \<Rightarrow> nat \<Rightarrow> bool" where
  idle: "inFlight \<lparr>isExecutingTrade = False, tradesExecutedInSession = 0\<rparr> 0 0"
| entry_call: "inFlight st n m \<Longrightarrow> beginEntry st = Some st1 \<Longrightarrow> inFlight st1 (Suc n) m"
| entry_return: "inFlight st (Suc n) m \<Longrightarrow> inFlight (endEntry st) n m"
| exit_call: "inFlight st n m \<Longrightarrow> inFlight st n (Suc m)"
| exit_return: "inFlight st n (Suc m) \<Longrightarrow> inFlight st n m"

section \<open>Notions used by the properties\<close>

text \<open>The tolerances of the attempts issued, in order.\<close>

fun attemptBps :: "ladder_event \<Rightarrow> real list" where
  "attemptBps (ExitAttempt request) = [x_slippageBps request]"
| "attemptBps (Wait ms) = []"

definition attempted :: "ladder_event list \<Rightarrow> real list" where
  "attempted events = concat (map attemptBps events)"

text \<open>The attempt with index \<open>i\<close>, made at \<open>slippagePercent\<close>, answers with success.\<close>

definition attemptSucceeds ::
  "(nat \<Rightarrow> exit_request \<Rightarrow> error + exit_result) \<Rightarrow> Position \<Rightarrow> string \<Rightarrow> nat \<Rightarrow> nat \<Rightarrow> bool" where
  "attemptSucceeds exec pos reason i slippagePercent =
     (case exec i (exitRequest pos reason slippagePercent) of
        Inr result \<Rightarrow> x_success result
      | Inl e \<Rightarrow> False)"

definition ladderBps :: "real list" where
  "ladderBps = [300, 500, 700, 1000, 1500, 2000]"

text \<open>The accounting of a session: what remains is what was allocated minus what was spent.\<close>

definition accounted :: "BotSession \<Rightarrow> bool" where
  "accounted b \<longleftrightarrow>
     0 \<le> remainingSol b
     \<and> remainingSol b = allocatedSol b - sum_list (map solSpent (positions b))"

definition allAccounted :: "system \<Rightarrow> bool" where
  "allAccounted sys \<longleftrightarrow> (\<forall>sid b. activeSessions sys sid = Some b \<longrightarrow> accounted b)"

text \<open>The same world, except that the execution adapter reports success.\<close>

definition reportSuccess :: "world \<Rightarrow> world" where
  "reportSuccess w =
     w\<lparr>executeSignedTransaction :=
         (\<lambda>stx rid. case executeSignedTransaction w stx rid of
                       Inl e \<Rightarrow> Inl e
                     | Inr r \<Rightarrow> Inr (r\<lparr>exec_success := True\<rparr>))\<rparr>"

subsection \<open>Sample inputs\<close>

definition samplePrices :: prices where
  "samplePrices =
     [''So11111111111111111111111111111111111111112'' \<mapsto>
        \<lparr>usdPrice = Some 200, decimals = Some 9\<rparr>,
      ''DezXAZ8z7PnrnRJjz3wXBoRgixCa6xjnB7YaB1pPB263'' \<mapsto>
        \<lparr>usdPrice = Some 2, decimals = Some 5\<rparr>]"

text \<open>
  A world in which prices, order creation and signing work, and the execution adapter
  reports success or failure as \<open>ok\<close> says.
\<close>

definition sampleWorld :: "bool \<Rightarrow> world" where
  "sampleWorld ok =
     \<lparr>fetchPrices = Inr samplePrices, fetchCurrentPrices = Inr samplePrices,
      getPublicKey = Some ''BotWallet'',
      createOrder = (\<lambda>_. Inr (Some \<lparr>transaction = Some ''dHg='', tx = None,
                       requestId = Some ''r1'', rsp_orderId = Some ''o1'', rsp_order = None\<rparr>)),
      signTransaction = (\<lambda>t. Inr \<lparr>sign_success = True,
                       signedTransaction = Some (''signed:'' @ t), sign_error = None\<rparr>),
      executeSignedTransaction = (\<lambda>_ _. Inr \<lparr>exec_success = ok,
                       signature = (if ok then Some ''sig1'' else None), txid = None,
                       exec_error = (if ok then None else Some ''HTTP 500''),
                       exec_message = None\<rparr>),
      clock = 1000, freshId = ''1000_abc''\<rparr>"

definition sampleExit :: "real \<Rightarrow> real \<Rightarrow> exit_request" where
  "sampleExit amt bps =
     \<lparr>x_positionId = ''pos_1'', x_token = ''BONK'', x_action = SELL,
      x_amount = amt, x_slippageBps = bps, x_reason = ''test''\<rparr>"

definition sampleSignals :: "error + signals_response option" where
  "sampleSignals =
     Inr (Some \<lparr>sig_success = True,
                sig_data = Some [Some \<lparr>sig_token = ''bonk'', sig_action = 1,
                                      sig_confidence = Some (4 / 5), sig_urgency = Some (1 / 2),
                                      sig_price = None, sig_explanation = None\<rparr>]\<rparr>)"

text \<open>A session launched with \<open>allocated\<close> SOL whose deposit has been confirmed.\<close>

definition sampleRunning :: "real \<Rightarrow> system" where
  "sampleRunning allocated =
     fst (confirmDepositAndStartTrading
            (fst (launchBot initial (Some ''BotWallet'') (Inr ''dHg='') ''bot_1'' 0
                    ''UserWallet'' allocated))
            (Inr ''sig0'') 0 ''bot_1'' ''UserWallet'' allocated)"

definition sampleTraded :: system where
  "sampleTraded =
     fst (startTradingForSession (sampleRunning 1) ''bot_1'' sampleSignals (sampleWorld False))"

definition held :: TradingService where
  "held = \<lparr>isExecutingTrade = True, tradesExecutedInSession = 0\<rparr>"

definition samplePosition :: "action \<Rightarrow> Position" where
  "samplePosition act =
     \<lparr>pos_id = ''pos_1'', token = ''BONK'', action = act, entryPrice = 100, amount = 5 / 2,
      solSpent = 9 / 10,
      takeProfitPrice = 100 * (if act = BUY then 103 / 100 else 97 / 100),
      stopLossPrice = 100 * (if act = BUY then 95 / 100 else 105 / 100),
      status = OPEN, createdAt = 0, autoExitTime = 180000,
      orderId = Some ''o1'', transactionSignature = None\<rparr>"

section \<open>Auxiliary facts\<close>

subsection \<open>Evaluation of the samples\<close>

lemma upper_bonk: "toUpperCase ''bonk'' = ''BONK''" "toUpperCase ''BONK'' = ''BONK''"
  by code_simp+

lemma mint_bonk:
  "getDefaultTokenMap ''BONK'' = Some ''DezXAZ8z7PnrnRJjz3wXBoRgixCa6xjnB7YaB1pPB263''"
  "getDefaultTokenMap ''SOL'' = Some ''So11111111111111111111111111111111111111112''"
  by (simp_all add: getDefaultTokenMap_def tokenSymbolToMint_def)

lemmas sample_defs = samplePrices_def sampleWorld_def sampleExit_def upper_bonk mint_bonk
  truthy_def orElse_def decimalsOf_def usdPriceOf_def numOr_def minimumSlippageBps_def
  truthyNum_def lamportsPerSol_def Let_def

lemma running_state:
  "0 < a \<Longrightarrow> sampleRunning a =
     \<lparr>activeSessions = [''bot_1'' \<mapsto> \<lparr>sessionId = ''bot_1'', walletPublicKey = ''UserWallet'',
          allocatedSol = a, remainingSol = a, tradesExecuted = 0, maxTrades = 5,
          sessionStatus = RUNNING, startedAt = 0, positions = []\<rparr>],
      userDeposits = [''UserWallet'' \<mapsto> \<lparr>userId = ''UserWallet'',
          userWalletAddress = ''UserWallet'', depositedSol = a, availableSol = 0,
          totalTrades = 1, depositedAt = 0, lastTradeAt = Some 0\<rparr>],
      tradingService = \<lparr>isExecutingTrade = False, tradesExecutedInSession = 0\<rparr>\<rparr>"
  by (simp add: sampleRunning_def launchBot_def confirmDepositAndStartTrading_def initial_def
        createDepositTransaction_def processDeposit_def reserveFundsForTrading_def putSession_def
        truthy_def Let_def)

lemma sample_exit_calls:
  "fst (snd (executeExitTrade st (sampleWorld ok) (sampleExit amt bps))) =
     [FetchPrices [''BONK'', ''SOL''], FetchPrices [''BONK'', ''SOL''],
      CreateOrder
        \<lparr>inputMint = ''DezXAZ8z7PnrnRJjz3wXBoRgixCa6xjnB7YaB1pPB263'',
         outputMint = ''So11111111111111111111111111111111111111112'',
         maker = ''BotWallet'', payer = ''BotWallet'',
         makingAmount = \<lfloor>amt\<rfloor> * 100000, takingAmount = \<lfloor>10000000 * amt\<rfloor>,
         slippageBps = Some (max bps 300), computeUnitPrice = ''auto'',
         wrapAndUnwrapSol = True\<rparr>,
      SignTransaction ''dHg='',
      ExecuteSignedTransaction ''signed:dHg='' ''r1'']"
  by (simp add: executeExitTrade_def exitBody_def exitCatch_def sample_defs split: prod.splits)

lemma sample_create_calls:
  "\<exists>p. fst (createExitOrder (sampleWorld ok) (sampleExit amt bps) ''UserWallet'') =
     [FetchPrices [''BONK'', ''SOL''], CreateOrder p]"
  by (simp add: createExitOrder_def createExitOrderBody_def sample_defs split: prod.splits)

subsection \<open>Orders issued by the exit paths\<close>

lemma exit_order_params:
  assumes "CreateOrder p \<in> set (fst (snd (executeExitTrade st w request)))"
  shows "\<exists>ps mint. fetchPrices w = Inr ps
            \<and> getDefaultTokenMap (toUpperCase (x_token request)) = Some mint
            \<and> makingAmount p = \<lfloor>x_amount request\<rfloor> * 10 ^ decimalsOf ps mint
            \<and> slippageBps p = Some (max (x_slippageBps request) minimumSlippageBps)"
  using assms
  by (auto simp: executeExitTrade_def exitBody_def Let_def truthy_def
       split: if_splits sum.splits option.splits prod.splits)

lemma create_exit_order_params:
  assumes "CreateOrder p \<in> set (fst (createExitOrder w request wallet))"
  shows "slippageBps p = Some (max (x_slippageBps request) minimumSlippageBps)"
  using assms
  by (auto simp: createExitOrder_def createExitOrderBody_def Let_def
       split: if_splits sum.splits option.splits prod.splits)

subsection \<open>The entry path\<close>

lemma entry_busy:
  "isExecutingTrade st \<Longrightarrow>
     executeTradeForSession st w tok act sz = (st, [], noTrade AnotherTradeExecuting False)"
  by (simp add: executeTradeForSession_def noTrade_def)

lemma entry_releases_flag:
  "\<not> isExecutingTrade st \<Longrightarrow> \<not> isExecutingTrade (fst (executeTradeForSession st w tok act sz))"
  by (simp add: executeTradeForSession_def split: prod.splits)

lemma executeTradeForSession_steps:
  "executeTradeForSession st w tok act sz =
     (case beginEntry st of
        None \<Rightarrow> (st, [], noTrade AnotherTradeExecuting False)
      | Some st1 \<Rightarrow> (endEntry st1, fst (entryBody w tok act sz),
                     entryCatch (snd (entryBody w tok act sz))))"
  by (simp add: executeTradeForSession_def beginEntry_def endEntry_def noTrade_def
        split: prod.splits)

lemma entries_single_flight:
  "inFlight st n m \<Longrightarrow> n \<le> 1 \<and> (isExecutingTrade st \<longleftrightarrow> n = 1)"
  by (induction rule: inFlight.induct) (auto simp: beginEntry_def endEntry_def split: if_splits)

lemma exit_ignores_flag:
  "fst (executeExitTrade st w request) = st"
  "snd (executeExitTrade st w request) = snd (executeExitTrade st' w request)"
  by (simp_all add: executeExitTrade_def split: prod.splits)

lemma entryBody_reportSuccess:
  "entryBody (reportSuccess w) tok act sz = entryBody w tok act sz"
  by (simp add: entryBody_def reportSuccess_def Let_def
       split: sum.splits option.splits cong: if_cong)

lemma executeTradeForSession_reportSuccess:
  "executeTradeForSession st (reportSuccess w) tok act sz = executeTradeForSession st w tok act sz"
  by (simp add: executeTradeForSession_def entryBody_reportSuccess)

lemma analyze_reportSuccess:
  "analyzeAndTradeForSession sys sid signals (reportSuccess w)
     = analyzeAndTradeForSession sys sid signals w"
  unfolding analyzeAndTradeForSession_def executeTradeForSession_reportSuccess ..

lemma entry_reached_execution:
  assumes "\<not> isExecutingTrade st"
    and "ExecuteSignedTransaction stx rid \<in> set (fst (snd (executeTradeForSession st w tok act sz)))"
    and "executeSignedTransaction w stx rid = Inr er"
  shows "\<exists>p. position (snd (snd (executeTradeForSession st w tok act sz))) = Some p
           \<and> solSpent p = sz \<and> status p = OPEN \<and> token p = tok \<and> action p = act
           \<and> success (snd (snd (executeTradeForSession st w tok act sz)))
           \<and> executed (snd (snd (executeTradeForSession st w tok act sz)))"
  using assms
  by (auto simp: executeTradeForSession_def entryBody_def entryCatch_def Let_def
       split: if_splits sum.splits option.splits prod.splits)

lemma entry_position_solSpent:
  "position (snd (snd (executeTradeForSession st w tok act sz))) = Some p \<Longrightarrow> solSpent p = sz"
  by (auto simp: executeTradeForSession_def entryBody_def entryCatch_def Let_def
       split: if_splits sum.splits option.splits prod.splits)

subsection \<open>The sample run\<close>

lemma sample_candidates:
  "candidates [Some \<lparr>sig_token = ''bonk'', sig_action = 1,
                     sig_confidence = Some (4 / 5), sig_urgency = Some (1 / 2),
                     sig_price = None, sig_explanation = None\<rparr>]
   = [\<lparr>sig_token = ''bonk'', sig_action = 1,
                     sig_confidence = Some (4 / 5), sig_urgency = Some (1 / 2),
                     sig_price = None, sig_explanation = None\<rparr>]"
  by (simp add: candidates_def List.map_filter_def upper_bonk mint_bonk)

lemma sample_entry:
  "executeTradeForSession \<lparr>isExecutingTrade = False, tradesExecutedInSession = 0\<rparr>
     (sampleWorld False) ''bonk'' BUY (9 / 10) =
     (\<lparr>isExecutingTrade = False, tradesExecutedInSession = 0\<rparr>,
      [FetchPrices [''BONK'', ''SOL''],
       CreateOrder
         \<lparr>inputMint = ''So11111111111111111111111111111111111111112'',
          outputMint = ''DezXAZ8z7PnrnRJjz3wXBoRgixCa6xjnB7YaB1pPB263'',
          maker = ''BotWallet'', payer = ''BotWallet'',
          makingAmount = 900000000, takingAmount = 9000000,
          slippageBps = None, computeUnitPrice = ''auto'', wrapAndUnwrapSol = True\<rparr>,
       SignTransaction ''dHg='',
       ExecuteSignedTransaction ''signed:dHg='' ''r1''],
      \<lparr>success = True, executed = True, message = EntryProcessed BUY ''bonk'',
       position = Some
         \<lparr>pos_id = ''pos_1000_abc'', token = ''bonk'', action = BUY,
          entryPrice = 2, amount = 90, solSpent = 9 / 10,
          takeProfitPrice = 103 / 50, stopLossPrice = 19 / 10,
          status = OPEN, createdAt = 1000, autoExitTime = 181000,
          orderId = Some ''o1'', transactionSignature = None\<rparr>,
       res_orderId = Some ''o1'', res_transactionSignature = Some ''pending''\<rparr>)"
  by (simp add: executeTradeForSession_def entryBody_def entryCatch_def sample_defs)

lemma sample_analyze:
  "\<exists>sys' calls res p.
     analyzeAndTradeForSession (sampleRunning 1) ''bot_1'' sampleSignals (sampleWorld False)
       = (sys', calls, Inr res)
     \<and> ExecuteSignedTransaction ''signed:dHg='' ''r1'' \<in> set calls
     \<and> activeSessions sys' ''bot_1''
         = Some \<lparr>sessionId = ''bot_1'', walletPublicKey = ''UserWallet'',
                 allocatedSol = 1, remainingSol = 1 / 10, tradesExecuted = 0, maxTrades = 5,
                 sessionStatus = RUNNING, startedAt = 0, positions = [p]\<rparr>
     \<and> solSpent p = 9 / 10 \<and> executed res"
  by (simp add: analyzeAndTradeForSession_def running_state sampleSignals_def sample_candidates
        best_def sample_entry putSession_def)

lemma sample_traded:
  "\<exists>p. activeSessions sampleTraded ''bot_1''
         = Some \<lparr>sessionId = ''bot_1'', walletPublicKey = ''UserWallet'',
                 allocatedSol = 1, remainingSol = 1 / 10, tradesExecuted = 1, maxTrades = 5,
                 sessionStatus = RUNNING, startedAt = 0, positions = [p]\<rparr>
     \<and> solSpent p = 9 / 10"
proof -
  from sample_analyze obtain sys' calls res p where
    a: "analyzeAndTradeForSession (sampleRunning 1) ''bot_1'' sampleSignals (sampleWorld False)
       = (sys', calls, Inr res)"
    and s: "activeSessions sys' ''bot_1''
         = Some \<lparr>sessionId = ''bot_1'', walletPublicKey = ''UserWallet'',
                 allocatedSol = 1, remainingSol = 1 / 10, tradesExecuted = 0, maxTrades = 5,
                 sessionStatus = RUNNING, startedAt = 0, positions = [p]\<rparr>"
    and p: "solSpent p = 9 / 10" "executed res"
    by blast
  have r: "activeSessions (sampleRunning 1) ''bot_1'' = Some \<lparr>sessionId = ''bot_1'', walletPublicKey = ''UserWallet'',
          allocatedSol = 1, remainingSol = 1, tradesExecuted = 0, maxTrades = 5,
          sessionStatus = RUNNING, startedAt = 0, positions = []\<rparr>"
    by (simp add: running_state)
  show ?thesis
    unfolding sampleTraded_def
    by (simp add: startTradingForSession_def r a s p putSession_def)
qed

lemma sample_exit_success:
  "x_token request = ''BONK'' \<Longrightarrow>
     x_success (snd (snd (executeExitTrade st (sampleWorld ok) request))) = ok"
  by (simp add: executeExitTrade_def exitBody_def exitCatch_def sample_defs split: prod.splits)

lemma sample_attempts:
  "attemptSucceeds (tradingExec st (\<lambda>i. sampleWorld (f i))) (samplePosition act) reason i p = f i"
  by (simp add: attemptSucceeds_def tradingExec_def sample_exit_success exitRequest_def
        samplePosition_def)

subsection \<open>The exit loop\<close>

lemma attempted_Cons [simp]:
  "attempted (ExitAttempt r # evs) = x_slippageBps r # attempted evs"
  "attempted (Wait d # evs) = attempted evs"
  "attempted [] = []"
  "attempted (xs @ ys) = attempted xs @ attempted ys"
  by (simp_all add: attempted_def)

lemma exitRequest_bps [simp]:
  "x_slippageBps (exitRequest pos reason p) = real p * 100"
  by (simp add: exitRequest_def)

lemma exitLoop_all_fail:
  "(\<forall>j < length ps. \<not> attemptSucceeds exec pos reason (i + j) (ps ! j)) \<Longrightarrow>
     attempted (fst (exitLoop exec pos reason i ps)) = map (\<lambda>p. real p * 100) ps
     \<and> snd (exitLoop exec pos reason i ps) = pos\<lparr>status := OPEN\<rparr>"
proof (induction ps arbitrary: i)
  case Nil
  then show ?case by simp
next
  case (Cons p ps)
  have hd: "\<not> attemptSucceeds exec pos reason i p"
    using Cons.prems by (auto dest: spec [of _ 0])
  have tl: "\<forall>j < length ps. \<not> attemptSucceeds exec pos reason (Suc i + j) (ps ! j)"
    using Cons.prems by (auto dest: spec [of _ "Suc j" for j])
  from Cons.IH [OF tl] hd show ?case
    by (auto simp: attemptSucceeds_def Let_def split: sum.splits prod.splits)
qed

lemma exitLoop_first_success:
  "k < length ps \<Longrightarrow> attemptSucceeds exec pos reason (i + k) (ps ! k) \<Longrightarrow>
   (\<forall>j < k. \<not> attemptSucceeds exec pos reason (i + j) (ps ! j)) \<Longrightarrow>
     attempted (fst (exitLoop exec pos reason i ps)) = map (\<lambda>p. real p * 100) (take (Suc k) ps)
     \<and> snd (exitLoop exec pos reason i ps) = pos\<lparr>status := CLOSED\<rparr>"
proof (induction ps arbitrary: i k)
  case Nil
  then show ?case by simp
next
  case (Cons p ps)
  show ?case
  proof (cases k)
    case 0
    with Cons.prems show ?thesis
      by (auto simp: attemptSucceeds_def Let_def split: sum.splits prod.splits)
  next
    case (Suc k')
    have hd: "\<not> attemptSucceeds exec pos reason i p"
      using Cons.prems Suc by (auto dest: spec [of _ 0])
    have a: "k' < length ps" using Cons.prems Suc by simp
    have b: "attemptSucceeds exec pos reason (Suc i + k') (ps ! k')" using Cons.prems Suc by simp
    have c: "\<forall>j < k'. \<not> attemptSucceeds exec pos reason (Suc i + j) (ps ! j)"
      using Cons.prems Suc by (auto dest: spec [of _ "Suc j" for j])
    from Cons.IH [OF a b c] hd Suc show ?thesis
      by (auto simp: attemptSucceeds_def Let_def split: sum.splits prod.splits)
  qed
qed

lemma ladder_values: "map (\<lambda>p. real p * 100) slippagePercentages = ladderBps"
  by (simp add: slippagePercentages_def ladderBps_def)

lemma exitLoop_no_wait:
  "(\<And>i request. \<exists>result. exec i request = Inr result) \<Longrightarrow>
     Wait d \<notin> set (fst (exitLoop exec pos reason i ps))"
proof (induction ps arbitrary: i)
  case Nil
  then show ?case by simp
next
  case (Cons p ps)
  from Cons.prems obtain result where r: "exec i (exitRequest pos reason p) = Inr result" by blast
  from Cons.IH [OF Cons.prems, of "i + 1"] r show ?case
    by (auto simp: Let_def split: prod.splits)
qed

lemma exitLoop_reported_failures:
  "(\<And>i p. \<exists>r. exec i (exitRequest pos reason p) = Inr r \<and> \<not> x_success r) \<Longrightarrow>
     fst (exitLoop exec pos reason i ps) = map (\<lambda>p. ExitAttempt (exitRequest pos reason p)) ps"
proof (induction ps arbitrary: i)
  case Nil
  then show ?case by simp
next
  case (Cons p ps)
  from Cons.prems obtain r where r: "exec i (exitRequest pos reason p) = Inr r" "\<not> x_success r"
    by blast
  from Cons.IH [OF Cons.prems, of "i + 1"] r show ?case
    by (simp add: case_prod_beta)
qed

lemma exitLoop_solSpent:
  "solSpent (snd (exitLoop exec pos reason i ps)) = solSpent pos"
  by (induction ps arbitrary: i) (auto simp: Let_def case_prod_beta split: sum.splits)

lemma checkExitPosition_solSpent:
  "solSpent (snd (checkExitPosition exec ps now pos)) = solSpent pos"
  by (auto simp: checkExitPosition_def botExecuteExitTrade_def exitLoop_solSpent Let_def
        split: prod.splits)

lemma thrown_errors_wait:
  "map (\<lambda>e. case e of Wait d \<Rightarrow> Some d | ExitAttempt r \<Rightarrow> None)
     (fst (botExecuteExitTrade (\<lambda>i request. Inl (Thrown ''Network error'')) pos reason))
   = [None, Some 3000, None, Some 3000, None, Some 3000, None, Some 3000, None, Some 3000, None]"
  by (simp add: botExecuteExitTrade_def slippagePercentages_def Let_def split: prod.splits)

lemma sample_failed_ladder:
  "fst (botExecuteExitTrade (tradingExec held (\<lambda>i. sampleWorld False)) (samplePosition BUY) reason)
     = map (\<lambda>p. ExitAttempt (exitRequest (samplePosition BUY) reason p)) [3, 5, 7, 10, 15, 20]"
  unfolding botExecuteExitTrade_def slippagePercentages_def
  by (rule exitLoop_reported_failures)
     (simp add: tradingExec_def sample_exit_success exitRequest_def samplePosition_def)

subsection \<open>Accounting is kept by every operation\<close>

lemma allAccounted_putSession:
  "allAccounted sys \<Longrightarrow> accounted b \<Longrightarrow> allAccounted (putSession sys sid b)"
  by (simp add: allAccounted_def putSession_def)

lemma allAccounted_other [simp]:
  "allAccounted (sys\<lparr>userDeposits := d\<rparr>) = allAccounted sys"
  "allAccounted (sys\<lparr>tradingService := t\<rparr>) = allAccounted sys"
  by (simp_all add: allAccounted_def)

lemma accounted_status [simp]:
  "accounted (b\<lparr>sessionStatus := s\<rparr>) = accounted b"
  "accounted (b\<lparr>tradesExecuted := n\<rparr>) = accounted b"
  by (simp_all add: accounted_def)

lemma allAccountedD: "allAccounted sys \<Longrightarrow> activeSessions sys sid = Some b \<Longrightarrow> accounted b"
  by (simp add: allAccounted_def)

lemma launchBot_accounted:
  assumes "allAccounted sys"
  shows "allAccounted (fst (launchBot sys botWalletAddress build newId now wallet allocated))"
proof (cases "d_success (createDepositTransaction botWalletAddress build allocated)")
  case False
  with assms show ?thesis by (simp add: launchBot_def Let_def)
next
  case True
  then have "0 < allocated"
    by (auto simp: createDepositTransaction_def split: if_splits sum.splits)
  then have "accounted \<lparr>sessionId = newId, walletPublicKey = wallet,
                          allocatedSol = allocated, remainingSol = allocated,
                          tradesExecuted = 0, maxTrades = 5,
                          sessionStatus = PENDING_DEPOSIT, startedAt = now,
                          positions = []\<rparr>"
    by (simp add: accounted_def)
  with assms show ?thesis
    by (auto simp: launchBot_def Let_def intro: allAccounted_putSession)
qed

lemma confirm_accounted:
  assumes "allAccounted sys"
  shows "allAccounted (fst (confirmDepositAndStartTrading sys send now sid userWallet allocated))"
proof (cases "activeSessions sys sid")
  case None
  with assms show ?thesis by (simp add: confirmDepositAndStartTrading_def)
next
  case (Some session)
  with assms have "accounted session" by (rule allAccountedD)
  with assms Some show ?thesis
    by (auto simp: confirmDepositAndStartTrading_def Let_def split: prod.splits
          intro!: allAccounted_putSession)
qed

lemma stopBot_accounted:
  assumes "allAccounted sys"
  shows "allAccounted (fst (stopBot sys sid))"
proof (cases "activeSessions sys sid")
  case None
  with assms show ?thesis by (simp add: stopBot_def)
next
  case (Some session)
  with assms have "accounted session" by (rule allAccountedD)
  with assms Some show ?thesis
    by (auto simp: stopBot_def Let_def intro!: allAccounted_putSession)
qed

lemma accounted_append:
  assumes "accounted session" and "solSpent p = remainingSol session * (9 / 10)"
  shows "accounted (session\<lparr>positions := positions session @ [p],
                            remainingSol := remainingSol session - solSpent p\<rparr>)"
  using assms by (simp add: accounted_def)

lemma analyze_accounted:
  assumes "allAccounted sys"
  shows "allAccounted (fst (analyzeAndTradeForSession sys sid signals w))"
proof (cases "activeSessions sys sid")
  case None
  with assms show ?thesis by (simp add: analyzeAndTradeForSession_def)
next
  case (Some session)
  with assms have acc: "accounted session" by (rule allAccountedD)
  show ?thesis
  proof (cases "analyzeAndTradeForSession sys sid signals w")
    case (fields sys' calls r)
    define sz where "sz = remainingSol session * (9 / 10)"
    have "\<And>tok ts cs res p.
            executeTradeForSession (tradingService sys) w tok BUY sz = (ts, cs, res)
            \<Longrightarrow> position res = Some p
            \<Longrightarrow> accounted (session\<lparr>positions := positions session @ [p],
                            remainingSol := remainingSol session - solSpent p\<rparr>)"
      using entry_position_solSpent accounted_append [OF acc] unfolding sz_def
      by (metis snd_conv)
    with assms Some show ?thesis
      unfolding sz_def
      by (auto simp: analyzeAndTradeForSession_def Let_def
            split: sum.splits option.splits prod.splits if_splits
            intro!: allAccounted_putSession)
  qed
qed

lemma trade_accounted:
  assumes "allAccounted sys"
  shows "allAccounted (fst (startTradingForSession sys sid signals w))"
proof (cases "activeSessions sys sid")
  case None
  with assms show ?thesis by (simp add: startTradingForSession_def)
next
  case (Some session)
  with assms have acc: "accounted session" by (rule allAccountedD)
  have an: "allAccounted (fst (analyzeAndTradeForSession sys sid signals w))"
    using assms by (rule analyze_accounted)
  show ?thesis
  proof (cases "analyzeAndTradeForSession sys sid signals w")
    case (fields sys1 calls r)
    with an have a1: "allAccounted sys1" by simp
    have sess: "\<exists>b. activeSessions sys1 sid = Some b"
      using fields Some
      by (auto simp: analyzeAndTradeForSession_def Let_def putSession_def
            split: sum.splits option.splits prod.splits if_splits)
    then obtain b where b: "activeSessions sys1 sid = Some b" by blast
    with a1 have "accounted b" by (rule allAccountedD)
    with assms Some acc fields a1 b show ?thesis
      by (auto simp: startTradingForSession_def Let_def
            split: sum.splits
            intro!: allAccounted_putSession)
  qed
qed

lemma map_solSpent_update:
  "solSpent q = solSpent (xs ! k) \<Longrightarrow> k < length xs \<Longrightarrow> map solSpent (xs[k := q]) = map solSpent xs"
  by (simp add: map_update list_update_same_conv)

lemma monitor_accounted:
  assumes "allAccounted sys"
  shows "allAccounted (monitorPosition sys sid k ws ps now)"
proof (cases "activeSessions sys sid")
  case None
  with assms show ?thesis by (simp add: monitorPosition_def)
next
  case (Some session)
  with assms have acc: "accounted session" by (rule allAccountedD)
  show ?thesis
  proof (cases "k < length (positions session) \<and> status (positions session ! k) = OPEN")
    case False
    with assms Some show ?thesis by (auto simp: monitorPosition_def)
  next
    case True
    let ?q = "snd (checkExitPosition (tradingExec (tradingService sys) ws) ps now (positions session ! k))"
    have "map solSpent ((positions session)[k := ?q]) = map solSpent (positions session)"
      using True by (intro map_solSpent_update) (simp_all add: checkExitPosition_solSpent)
    with acc have "accounted (session\<lparr>positions := (positions session)[k := ?q]\<rparr>)"
      by (simp add: accounted_def)
    with assms Some True show ?thesis
      by (auto simp: monitorPosition_def intro!: allAccounted_putSession)
  qed
qed

lemma reachable_accounted: "reachable sys \<Longrightarrow> allAccounted sys"
proof (induction rule: reachable.induct)
  case start
  show ?case by (simp add: allAccounted_def initial_def)
qed (auto intro: launchBot_accounted confirm_accounted stopBot_accounted trade_accounted
      monitor_accounted)

subsection \<open>Returning unused funds\<close>

lemma quota_path_returns_funds:
  assumes "activeSessions sys sid = Some session" "sessionStatus session = RUNNING"
    and "maxTrades session \<le> tradesExecuted session" "0 < remainingSol session"
    and "userDeposits sys (walletPublicKey session) = Some deposit"
  shows "map_option availableSol
           (userDeposits (fst (startTradingForSession sys sid signals w)) (walletPublicKey session))
         = Some (availableSol deposit + remainingSol session)"
  using assms
  by (simp add: startTradingForSession_def putSession_def returnUnusedFunds_def Let_def)

lemma minimum_path_keeps_funds:
  assumes "activeSessions sys sid = Some session" "sessionStatus session = RUNNING"
    and "tradesExecuted session < maxTrades session" "remainingSol session < 1 / 100"
  shows "fst (startTradingForSession sys sid signals w)
         = putSession sys sid (session\<lparr>sessionStatus := COMPLETED\<rparr>)"
  using assms
  by (simp add: startTradingForSession_def)

lemma stopBot_returns_each_time:
  assumes "activeSessions sys sid = Some session" "0 < remainingSol session"
    and "userDeposits sys (walletPublicKey session) = Some deposit"
  shows "map_option availableSol (userDeposits (fst (stopBot sys sid)) (walletPublicKey session))
           = Some (availableSol deposit + remainingSol session)"
    and "map_option availableSol
           (userDeposits (fst (stopBot (fst (stopBot sys sid)) sid)) (walletPublicKey session))
           = Some (availableSol deposit + 2 * remainingSol session)"
  using assms
  by (simp_all add: stopBot_def putSession_def returnUnusedFunds_def Let_def)

section \<open>Single-flight guard\<close>

text \<open>
  Claim C1. The claim: entry and exit executions alike take the flag \<open>isExecutingTrade\<close>
  before any work, release it on return, and answer "busy" without creating, signing or
  submitting an order when it is held, so that at most one execution is in flight.
  \<open>executeTradeForSession\<close> does this (\<open>entry_busy\<close>, \<open>entry_releases_flag\<close>,
  \<open>entries_single_flight\<close>). \<open>executeExitTrade\<close> does not: called while the flag is held, where
  the entry path answers "busy" with no call made, it leaves the flag as it is, creates,
  signs and submits an order and answers with success; an entry and an exit execution
  are then in flight together.
\<close>

theorem exit_runs_while_flag_held:
  "isExecutingTrade held
   \<and> executeTradeForSession held (sampleWorld True) ''BONK'' BUY 1
       = (held, [], noTrade AnotherTradeExecuting False)
   \<and> fst (executeExitTrade held (sampleWorld True) (sampleExit 2 300)) = held
   \<and> fst (snd (executeExitTrade held (sampleWorld True) (sampleExit 2 300)))
       = [FetchPrices [''BONK'', ''SOL''], FetchPrices [''BONK'', ''SOL''],
          CreateOrder
            \<lparr>inputMint = ''DezXAZ8z7PnrnRJjz3wXBoRgixCa6xjnB7YaB1pPB263'',
             outputMint = ''So11111111111111111111111111111111111111112'',
             maker = ''BotWallet'', payer = ''BotWallet'',
             makingAmount = 200000, takingAmount = 20000000,
             slippageBps = Some 300, computeUnitPrice = ''auto'',
             wrapAndUnwrapSol = True\<rparr>,
          SignTransaction ''dHg='',
          ExecuteSignedTransaction ''signed:dHg='' ''r1'']
   \<and> x_success (snd (snd (executeExitTrade held (sampleWorld True) (sampleExit 2 300))))
   \<and> inFlight held 1 1"
proof -
  have 1: "isExecutingTrade held" by (simp add: held_def)
  have 2: "executeTradeForSession held (sampleWorld True) ''BONK'' BUY 1
       = (held, [], noTrade AnotherTradeExecuting False)"
    using 1 by (rule entry_busy)
  have 3: "fst (executeExitTrade held (sampleWorld True) (sampleExit 2 300)) = held"
    by (rule exit_ignores_flag)
  have 4: "x_success (snd (snd (executeExitTrade held (sampleWorld True) (sampleExit 2 300))))"
    by (simp add: sample_exit_success sampleExit_def)
  have "inFlight \<lparr>isExecutingTrade = False, tradesExecutedInSession = 0\<rparr> 0 0"
    by (rule inFlight.idle)
  then have "inFlight held (Suc 0) 0"
    by (rule inFlight.entry_call) (simp add: beginEntry_def held_def)
  then have "inFlight held (Suc 0) (Suc 0)"
    by (rule inFlight.exit_call)
  then have 5: "inFlight held 1 1" by simp
  from 1 2 3 4 5 show ?thesis by (simp add: sample_exit_calls)
qed

section \<open>Session accounting\<close>

text \<open>
  Claim C2. In every state the service reaches, every session has a non-negative
  \<open>remainingSol\<close>, equal to \<open>allocatedSol\<close> minus the sum of \<open>solSpent\<close> over its
  positions. Positions are only ever appended to a session (by an executed entry, which
  subtracts the position's \<open>solSpent\<close>) or have their status changed, so the list holds
  every position ever opened. Each operation runs from call to return, one trading
  cadence per session; the ledger and the flag of the trading service may be in any
  state. Amounts are exact reals.
\<close>

theorem remaining_accounting:
  assumes "reachable sys" and "activeSessions sys sid = Some b"
  shows "0 \<le> remainingSol b
         \<and> remainingSol b = allocatedSol b - (\<Sum>p\<leftarrow>positions b. solSpent p)"
proof -
  from reachable_accounted [OF assms(1)] assms(2) have "accounted b"
    by (rule allAccountedD)
  then show ?thesis by (simp add: accounted_def)
qed

text \<open>
  A session launched with 1 SOL, confirmed, and traded once at 90% of what remains: 0.9
  spent, 0.1 remaining.
\<close>

theorem remaining_accounting_witness:
  "reachable sampleTraded
   \<and> (\<exists>b. activeSessions sampleTraded ''bot_1'' = Some b
          \<and> allocatedSol b = 1 \<and> map solSpent (positions b) = [9 / 10]
          \<and> remainingSol b = 1 / 10
          \<and> 0 \<le> remainingSol b
          \<and> remainingSol b = allocatedSol b - (\<Sum>p\<leftarrow>positions b. solSpent p))"
proof -
  have r: "reachable sampleTraded"
    unfolding sampleTraded_def sampleRunning_def
    by (intro reachable.intros)
  from sample_traded obtain b where
    b: "activeSessions sampleTraded ''bot_1'' = Some b" "allocatedSol b = 1"
       "map solSpent (positions b) = [9 / 10]" "remainingSol b = 1 / 10"
    by auto
  have "0 \<le> remainingSol b
        \<and> remainingSol b = allocatedSol b - (\<Sum>p\<leftarrow>positions b. solSpent p)"
    by (rule remaining_accounting [OF r b(1)])
  with r b show ?thesis by (auto intro!: exI [of _ b])
qed

text \<open>
  Claim C3. When an entry has reached the execution adapter (so order creation and
  signing succeeded) and the adapter answers with \<open>success = false\<close>,
  \<open>executeTradeForSession\<close> still answers \<open>success\<close> and \<open>executed\<close> with an open
  position whose \<open>solSpent\<close> is the trade size, and \<open>analyzeAndTradeForSession\<close> appends
  that position to the session and subtracts its \<open>solSpent\<close> from \<open>remainingSol\<close>. The
  outcome is the one obtained had the adapter reported success with the same answer
  otherwise.
\<close>

theorem entry_failure_recorded_as_success:
  assumes flag: "\<not> isExecutingTrade (tradingService sys)"
    and run: "analyzeAndTradeForSession sys sid signals w = (sys', calls, r)"
    and reached: "ExecuteSignedTransaction stx rid \<in> set calls"
    and answer: "executeSignedTransaction w stx rid = Inr er"
    and failed: "\<not> exec_success er"
  shows "\<exists>session tok res p.
           activeSessions sys sid = Some session
         \<and> executeTradeForSession (tradingService sys) w tok BUY (remainingSol session * (9 / 10))
             = (tradingService sys', calls, res)
         \<and> r = Inr res \<and> success res \<and> executed res
         \<and> position res = Some p \<and> status p = OPEN
         \<and> solSpent p = remainingSol session * (9 / 10)
         \<and> activeSessions sys' sid
             = Some (session\<lparr>positions := positions session @ [p],
                              remainingSol := remainingSol session - solSpent p\<rparr>)
         \<and> analyzeAndTradeForSession sys sid signals (reportSuccess w) = (sys', calls, r)"
proof -
  from run reached obtain session where s: "activeSessions sys sid = Some session"
    by (auto simp: analyzeAndTradeForSession_def split: option.splits)
  from run reached s obtain resp where sg: "signals = Inr (Some resp)"
    by (auto simp: analyzeAndTradeForSession_def split: sum.splits option.splits)
  from run reached s sg have ok: "sig_success resp" "sig_data resp \<noteq> None" "the (sig_data resp) \<noteq> []"
    "candidates (the (sig_data resp)) \<noteq> []"
    by (auto simp: analyzeAndTradeForSession_def Let_def split: if_splits)
  define tok where "tok = sig_token (best (candidates (the (sig_data resp))))"
  define sz where "sz = remainingSol session * (9 / 10)"
  obtain ts1 calls1 res where e: "executeTradeForSession (tradingService sys) w tok BUY sz = (ts1, calls1, res)"
    by (cases "executeTradeForSession (tradingService sys) w tok BUY sz") auto
  from run s sg ok e have c: "calls = calls1" and rr: "r = Inr res"
    by (auto simp: analyzeAndTradeForSession_def Let_def tok_def sz_def split: if_splits)
  from reached c e have m: "ExecuteSignedTransaction stx rid \<in> set (fst (snd (executeTradeForSession (tradingService sys) w tok BUY sz)))"
    by simp
  from entry_reached_execution [OF flag m answer] e obtain p where
    p: "position res = Some p" "solSpent p = sz" "status p = OPEN" "success res" "executed res"
    by auto
  from run s sg ok e p have s': "sys' = putSession (sys\<lparr>tradingService := ts1\<rparr>) sid
        (session\<lparr>positions := positions session @ [p], remainingSol := remainingSol session - solSpent p\<rparr>)"
    by (auto simp: analyzeAndTradeForSession_def Let_def tok_def sz_def split: if_splits)
  have "tradingService sys' = ts1" "activeSessions sys' sid = Some (session\<lparr>positions := positions session @ [p], remainingSol := remainingSol session - solSpent p\<rparr>)"
    by (simp_all add: s' putSession_def)
  with s e c rr p run show ?thesis
    unfolding sz_def by (auto simp: analyze_reportSuccess)
qed

text \<open>The sample session trading in a world whose adapter answers \<open>success = false\<close>.\<close>

theorem entry_failure_recorded_as_success_witness:
  "\<not> isExecutingTrade (tradingService (sampleRunning 1))
   \<and> ExecuteSignedTransaction ''signed:dHg='' ''r1''
       \<in> set (fst (snd (analyzeAndTradeForSession (sampleRunning 1) ''bot_1'' sampleSignals
                          (sampleWorld False))))
   \<and> (\<exists>er. executeSignedTransaction (sampleWorld False) ''signed:dHg='' ''r1'' = Inr er
          \<and> \<not> exec_success er)
   \<and> (\<exists>session res p.
          activeSessions (sampleRunning 1) ''bot_1'' = Some session
        \<and> snd (snd (analyzeAndTradeForSession (sampleRunning 1) ''bot_1'' sampleSignals
                       (sampleWorld False))) = Inr res
        \<and> success res \<and> executed res \<and> position res = Some p \<and> status p = OPEN
        \<and> solSpent p = remainingSol session * (9 / 10)
        \<and> activeSessions (fst (analyzeAndTradeForSession (sampleRunning 1) ''bot_1''
                                  sampleSignals (sampleWorld False))) ''bot_1''
            = Some (session\<lparr>positions := positions session @ [p],
                             remainingSol := remainingSol session - solSpent p\<rparr>))"
proof -
  let ?X = "analyzeAndTradeForSession (sampleRunning 1) ''bot_1'' sampleSignals (sampleWorld False)"
  let ?er = "\<lparr>exec_success = False, signature = None, txid = None,
              exec_error = Some ''HTTP 500'', exec_message = None\<rparr>"
  have flag: "\<not> isExecutingTrade (tradingService (sampleRunning 1))"
    by (simp add: running_state)
  have run: "?X = (fst ?X, fst (snd ?X), snd (snd ?X))" by simp
  have reached: "ExecuteSignedTransaction ''signed:dHg='' ''r1'' \<in> set (fst (snd ?X))"
    using sample_analyze by auto
  have answer: "executeSignedTransaction (sampleWorld False) ''signed:dHg='' ''r1'' = Inr ?er"
    by (simp add: sampleWorld_def)
  have failed: "\<not> exec_success ?er" by simp
  from entry_failure_recorded_as_success [OF flag run reached answer failed]
  have "\<exists>session res p.
          activeSessions (sampleRunning 1) ''bot_1'' = Some session
        \<and> snd (snd ?X) = Inr res
        \<and> success res \<and> executed res \<and> position res = Some p \<and> status p = OPEN
        \<and> solSpent p = remainingSol session * (9 / 10)
        \<and> activeSessions (fst ?X) ''bot_1''
            = Some (session\<lparr>positions := positions session @ [p],
                             remainingSol := remainingSol session - solSpent p\<rparr>)"
    by blast
  with flag reached answer failed show ?thesis by blast
qed

text \<open>
  Claim C4. The claim: \<open>stop\<close> on a running session with \<open>r\<close> remaining credits the
  ledger's available balance by \<open>r\<close> once, also when \<open>stop\<close> is called twice. \<open>stopBot\<close>
  does not look at the status of the session: a session confirmed with 0.4 SOL and
  stopped twice is credited 0.4 by each call, which leaves 0.8 available for a wallet
  that deposited 0.4 (\<open>stopBot_returns_each_time\<close> is the general fact).
\<close>

theorem stop_twice_credits_twice:
  "(let s = sampleRunning (2 / 5);
        s1 = fst (stopBot s ''bot_1'');
        s2 = fst (stopBot s1 ''bot_1'')
    in map_option sessionStatus (activeSessions s ''bot_1'') = Some RUNNING
       \<and> map_option remainingSol (activeSessions s ''bot_1'') = Some (2 / 5)
       \<and> map_option availableSol (userDeposits s ''UserWallet'') = Some 0
       \<and> snd (stopBot s ''bot_1'') = Stopped STOPPED 0 (2 / 5) True
       \<and> map_option availableSol (userDeposits s1 ''UserWallet'') = Some (2 / 5)
       \<and> snd (stopBot s1 ''bot_1'') = Stopped STOPPED 0 (2 / 5) True
       \<and> map_option availableSol (userDeposits s2 ''UserWallet'') = Some (4 / 5)
       \<and> map_option depositedSol (userDeposits s2 ''UserWallet'') = Some (2 / 5))"
  by (simp add: running_state stopBot_def putSession_def returnUnusedFunds_def Let_def)

text \<open>
  Claim C5. The claim: a running session whose remaining balance is below 0.01 SOL is
  completed and its remaining balance returned to the ledger, as on the trade-quota
  path. The code completes such a session and returns nothing: a session confirmed with
  0.005 SOL is \<open>COMPLETED\<close> after one run of \<open>startTradingForSession\<close>, whatever the
  signals and the world, with its 0.005 SOL still held by the session and the ledger as
  it was. The quota path returns the funds (\<open>quota_path_returns_funds\<close>); this path never
  does (\<open>minimum_path_keeps_funds\<close>).
\<close>

theorem below_minimum_keeps_funds:
  "(let s = sampleRunning (1 / 200);
        s1 = fst (startTradingForSession s ''bot_1'' signals w)
    in map_option sessionStatus (activeSessions s ''bot_1'') = Some RUNNING
       \<and> map_option remainingSol (activeSessions s ''bot_1'') = Some (1 / 200)
       \<and> map_option sessionStatus (activeSessions s1 ''bot_1'') = Some COMPLETED
       \<and> map_option remainingSol (activeSessions s1 ''bot_1'') = Some (1 / 200)
       \<and> userDeposits s1 = userDeposits s
       \<and> map_option availableSol (userDeposits s1 ''UserWallet'') = Some 0
       \<and> map_option depositedSol (userDeposits s1 ''UserWallet'') = Some (1 / 200))"
  by (simp add: running_state startTradingForSession_def putSession_def Let_def)

section \<open>Exit orders\<close>

text \<open>
  Claim C6. Every order that \<open>TradingService.executeExitTrade\<close> or \<open>createExitOrder\<close>
  sends to the order API carries the tolerance \<open>max(requested, 300)\<close> basis points: it
  is never below 300, and a request of 300 or more is used unchanged.
\<close>

theorem exit_slippage_floor:
  "(CreateOrder p \<in> set (fst (snd (executeExitTrade st w request))) \<longrightarrow>
      slippageBps p = Some (max (x_slippageBps request) 300))
   \<and> (CreateOrder p \<in> set (fst (createExitOrder w request wallet)) \<longrightarrow>
      slippageBps p = Some (max (x_slippageBps request) 300))
   \<and> 300 \<le> max (x_slippageBps request) 300
   \<and> (300 \<le> x_slippageBps request \<longrightarrow>
        max (x_slippageBps request) 300 = x_slippageBps request)"
  using exit_order_params [of p st w request] create_exit_order_params [of p w request wallet]
  by (auto simp: minimumSlippageBps_def)

text \<open>
  A request of 100 basis points is raised to 300 by \<open>executeExitTrade\<close>; a request of 700
  is passed on as 700 by \<open>createExitOrder\<close>.
\<close>

theorem exit_slippage_floor_witness:
  "\<exists>p q. CreateOrder p
            \<in> set (fst (snd (executeExitTrade held (sampleWorld True) (sampleExit 2 100))))
       \<and> slippageBps p = Some 300
       \<and> CreateOrder q
            \<in> set (fst (createExitOrder (sampleWorld True) (sampleExit 2 700) ''UserWallet''))
       \<and> slippageBps q = Some 700"
proof -
  obtain p where p: "CreateOrder p
      \<in> set (fst (snd (executeExitTrade held (sampleWorld True) (sampleExit 2 100))))"
    by (simp add: sample_exit_calls)
  obtain q where q: "CreateOrder q
      \<in> set (fst (createExitOrder (sampleWorld True) (sampleExit 2 700) ''UserWallet''))"
    using sample_create_calls [of True 2 700] by auto
  from exit_slippage_floor [of p held "sampleWorld True" "sampleExit 2 100"] p
  have "slippageBps p = Some 300" by (simp add: sampleExit_def)
  moreover
  from exit_slippage_floor [of q _ "sampleWorld True" "sampleExit 2 700" "''UserWallet''"] q
  have "slippageBps q = Some 700" by (simp add: sampleExit_def)
  ultimately show ?thesis using p q by blast
qed

text \<open>
  Claim C10. The making amount of the order that \<open>TradingService.executeExitTrade\<close> sends
  is the requested amount rounded down to a whole number of tokens, times ten to the
  token's decimals (those of the price feed, 9 when absent or zero); a non-negative
  amount below one token gives a making amount of zero.
\<close>

theorem exit_making_amount_truncated:
  assumes "CreateOrder p \<in> set (fst (snd (executeExitTrade st w request)))"
  shows "(\<exists>ps mint. fetchPrices w = Inr ps
            \<and> getDefaultTokenMap (toUpperCase (x_token request)) = Some mint
            \<and> makingAmount p = \<lfloor>x_amount request\<rfloor> * 10 ^ decimalsOf ps mint)
         \<and> (0 \<le> x_amount request \<and> x_amount request < 1 \<longrightarrow> makingAmount p = 0)"
proof -
  from exit_order_params [OF assms] obtain ps mint where
    h: "fetchPrices w = Inr ps"
       "getDefaultTokenMap (toUpperCase (x_token request)) = Some mint"
       "makingAmount p = \<lfloor>x_amount request\<rfloor> * 10 ^ decimalsOf ps mint"
    by blast
  have "0 \<le> x_amount request \<and> x_amount request < 1 \<longrightarrow> \<lfloor>x_amount request\<rfloor> = 0"
    by (auto simp: floor_eq_iff)
  with h show ?thesis by auto
qed

text \<open>
  With five decimals, 2.75 tokens are sold as 200000 units (two tokens), and half a
  token as an order of zero units.
\<close>

theorem exit_making_amount_truncated_witness:
  "\<exists>p q. CreateOrder p
            \<in> set (fst (snd (executeExitTrade held (sampleWorld True) (sampleExit (11 / 4) 300))))
       \<and> makingAmount p = 200000
       \<and> CreateOrder q
            \<in> set (fst (snd (executeExitTrade held (sampleWorld True) (sampleExit (1 / 2) 300))))
       \<and> makingAmount q = 0"
proof -
  obtain p where p: "CreateOrder p
      \<in> set (fst (snd (executeExitTrade held (sampleWorld True) (sampleExit (11 / 4) 300))))"
    by (simp add: sample_exit_calls)
  obtain q where q: "CreateOrder q
      \<in> set (fst (snd (executeExitTrade held (sampleWorld True) (sampleExit (1 / 2) 300))))"
    by (simp add: sample_exit_calls)
  from exit_making_amount_truncated [OF p]
  have "makingAmount p = 200000"
    by (auto simp: sample_defs)
  moreover from exit_making_amount_truncated [OF q]
  have "makingAmount q = 0" by (simp add: sampleExit_def)
  ultimately show ?thesis using p q by blast
qed

section \<open>Position monitor and exit retries\<close>

text \<open>
  Claim C7. \<open>shouldExitPosition\<close> tests take-profit, then stop-loss, then the timeout, and
  reports the reason of the first test that holds: take-profit whenever the price has
  reached \<open>takeProfitPrice\<close>, whatever the other two tests say; stop-loss only below
  that; the timeout only between the two prices; and no exit, with the empty reason,
  otherwise. The answer carries one reason.
\<close>

theorem exit_priority:
  "(currentPrice \<ge> takeProfitPrice pos \<longrightarrow>
       shouldExitPosition now pos currentPrice = (True, ''3% Take Profit reached''))
   \<and> (currentPrice < takeProfitPrice pos \<and> currentPrice \<le> stopLossPrice pos \<longrightarrow>
       shouldExitPosition now pos currentPrice = (True, ''5% Stop Loss reached''))
   \<and> (currentPrice < takeProfitPrice pos \<and> stopLossPrice pos < currentPrice
        \<and> now \<ge> autoExitTime pos \<longrightarrow>
       fst (shouldExitPosition now pos currentPrice)
       \<and> take 24 (snd (shouldExitPosition now pos currentPrice)) = ''3-minute timeout reached'')
   \<and> (currentPrice < takeProfitPrice pos \<and> stopLossPrice pos < currentPrice
        \<and> now < autoExitTime pos \<longrightarrow>
       shouldExitPosition now pos currentPrice = (False, []))"
  by (simp add: shouldExitPosition_def Let_def)

text \<open>
  The scenario of the specification (entry 100, take-profit 103, stop-loss 95, price
  104); a short position (take-profit 97, stop-loss 105) at price 100, where take-profit
  and stop-loss both hold and take-profit is reported; and the other three answers.
\<close>

theorem exit_priority_witness:
  "shouldExitPosition 0 (samplePosition BUY) 104 = (True, ''3% Take Profit reached'')
   \<and> takeProfitPrice (samplePosition SELL) \<le> 100 \<and> 100 \<le> stopLossPrice (samplePosition SELL)
   \<and> shouldExitPosition 0 (samplePosition SELL) 100 = (True, ''3% Take Profit reached'')
   \<and> shouldExitPosition 0 (samplePosition BUY) 94 = (True, ''5% Stop Loss reached'')
   \<and> fst (shouldExitPosition 180000 (samplePosition BUY) 101)
   \<and> take 24 (snd (shouldExitPosition 180000 (samplePosition BUY) 101)) = ''3-minute timeout reached''
   \<and> shouldExitPosition 179999 (samplePosition BUY) 101 = (False, [])"
  using exit_priority [of "samplePosition BUY" 104 0]
        exit_priority [of "samplePosition SELL" 100 0]
        exit_priority [of "samplePosition BUY" 94 0]
        exit_priority [of "samplePosition BUY" 101 180000]
        exit_priority [of "samplePosition BUY" 101 179999]
  by (simp add: samplePosition_def)

text \<open>
  Claim C8. The tolerances \<open>BotService.executeExitTrade\<close> attempts are an initial
  segment of the increasing ladder 300, 500, 700, 1000, 1500, 2000: when attempt \<open>k\<close> is
  the first to succeed, exactly the first \<open>k + 1\<close> rungs are attempted and the position
  is then \<open>CLOSED\<close>; when no attempt succeeds (answers of failure and thrown errors
  alike), exactly the six rungs are attempted and the position is \<open>OPEN\<close>. The method
  returns in every case: the loop catches what an attempt throws. Nothing but the status
  of the position changes.
\<close>

theorem exit_ladder:
  "((\<forall>i < 6. \<not> attemptSucceeds exec pos reason i (slippagePercentages ! i)) \<longrightarrow>
      attempted (fst (botExecuteExitTrade exec pos reason)) = ladderBps
      \<and> snd (botExecuteExitTrade exec pos reason) = pos\<lparr>status := OPEN\<rparr>)
   \<and> (\<forall>k < 6. attemptSucceeds exec pos reason k (slippagePercentages ! k)
        \<and> (\<forall>j < k. \<not> attemptSucceeds exec pos reason j (slippagePercentages ! j)) \<longrightarrow>
      attempted (fst (botExecuteExitTrade exec pos reason)) = take (Suc k) ladderBps
      \<and> snd (botExecuteExitTrade exec pos reason) = pos\<lparr>status := CLOSED\<rparr>)
   \<and> sorted_wrt (<) ladderBps \<and> length ladderBps = 6"
proof -
  have len: "length slippagePercentages = 6" by (simp add: slippagePercentages_def)
  have A: "(\<forall>i < 6. \<not> attemptSucceeds exec pos reason i (slippagePercentages ! i)) \<longrightarrow>
      attempted (fst (botExecuteExitTrade exec pos reason)) = ladderBps
      \<and> snd (botExecuteExitTrade exec pos reason) = pos\<lparr>status := OPEN\<rparr>"
    using exitLoop_all_fail [of slippagePercentages exec pos reason 0]
    by (simp add: botExecuteExitTrade_def len ladder_values)
  have B: "\<forall>k < 6. attemptSucceeds exec pos reason k (slippagePercentages ! k)
        \<and> (\<forall>j < k. \<not> attemptSucceeds exec pos reason j (slippagePercentages ! j)) \<longrightarrow>
      attempted (fst (botExecuteExitTrade exec pos reason)) = take (Suc k) ladderBps
      \<and> snd (botExecuteExitTrade exec pos reason) = pos\<lparr>status := CLOSED\<rparr>"
  proof (intro allI impI)
    fix k assume k: "k < (6::nat)"
      and h: "attemptSucceeds exec pos reason k (slippagePercentages ! k)
        \<and> (\<forall>j < k. \<not> attemptSucceeds exec pos reason j (slippagePercentages ! j))"
    from exitLoop_first_success [of k slippagePercentages exec pos reason 0] k h
    show "attempted (fst (botExecuteExitTrade exec pos reason)) = take (Suc k) ladderBps
      \<and> snd (botExecuteExitTrade exec pos reason) = pos\<lparr>status := CLOSED\<rparr>"
      by (simp add: botExecuteExitTrade_def len take_map [symmetric] ladder_values del: take_Suc)
  qed
  have C: "sorted_wrt (<) ladderBps \<and> length ladderBps = 6" by (simp add: ladderBps_def)
  from A B C show ?thesis by blast
qed

text \<open>
  The adapter failing at every rung leaves the position open after six attempts;
  the adapter failing twice and then succeeding closes it at 700 basis points.
\<close>

theorem exit_ladder_witness:
  "attempted (fst (botExecuteExitTrade (tradingExec held (\<lambda>i. sampleWorld False))
                     (samplePosition BUY) ''timeout''))
     = [300, 500, 700, 1000, 1500, 2000]
   \<and> status (snd (botExecuteExitTrade (tradingExec held (\<lambda>i. sampleWorld False))
                     (samplePosition BUY) ''timeout'')) = OPEN
   \<and> attempted (fst (botExecuteExitTrade (tradingExec held (\<lambda>i. sampleWorld (2 \<le> i)))
                     (samplePosition BUY) ''timeout''))
     = [300, 500, 700]
   \<and> status (snd (botExecuteExitTrade (tradingExec held (\<lambda>i. sampleWorld (2 \<le> i)))
                     (samplePosition BUY) ''timeout'')) = CLOSED"
proof -
  let ?e1 = "tradingExec held (\<lambda>i. sampleWorld False)"
  let ?e2 = "tradingExec held (\<lambda>i. sampleWorld (2 \<le> i))"
  let ?p = "samplePosition BUY"
  have a: "\<forall>i<6. \<not> attemptSucceeds ?e1 ?p ''timeout'' i (slippagePercentages ! i)"
    by (simp add: sample_attempts)
  have b: "(2::nat) < 6 \<and> attemptSucceeds ?e2 ?p ''timeout'' 2 (slippagePercentages ! 2)
        \<and> (\<forall>j < 2. \<not> attemptSucceeds ?e2 ?p ''timeout'' j (slippagePercentages ! j))"
    by (simp add: sample_attempts)
  from exit_ladder [of ?e1 ?p "''timeout''"] a
  have 1: "attempted (fst (botExecuteExitTrade ?e1 ?p ''timeout'')) = ladderBps
      \<and> snd (botExecuteExitTrade ?e1 ?p ''timeout'') = ?p\<lparr>status := OPEN\<rparr>"
    by blast
  from exit_ladder [of ?e2 ?p "''timeout''"] b
  have 2: "attempted (fst (botExecuteExitTrade ?e2 ?p ''timeout'')) = take (Suc 2) ladderBps
      \<and> snd (botExecuteExitTrade ?e2 ?p ''timeout'') = ?p\<lparr>status := CLOSED\<rparr>"
    by blast
  from 1 2 show ?thesis by (simp add: ladderBps_def)
qed

text \<open>
  Claim C9. The claim: after every failed attempt but the last, the loop waits three
  seconds. The wait stands in the \<open>catch\<close> clause of the loop, so it follows an attempt
  that throws (\<open>thrown_errors_wait\<close>), not one that answers \<open>success = false\<close>.
  \<open>TradingService.executeExitTrade\<close> catches its own errors and always answers, so with
  it as executor no wait ever occurs: when the adapter fails at every rung, the six
  attempts follow each other with nothing in between.
\<close>

theorem reported_failure_no_delay:
  "Wait d \<notin> set (fst (botExecuteExitTrade (tradingExec ts ws) pos reason))
   \<and> fst (botExecuteExitTrade (tradingExec held (\<lambda>i. sampleWorld False))
             (samplePosition BUY) reason)
       = map (\<lambda>p. ExitAttempt (exitRequest (samplePosition BUY) reason p))
           [3, 5, 7, 10, 15, 20]"
proof -
  have "Wait d \<notin> set (fst (botExecuteExitTrade (tradingExec ts ws) pos reason))"
    unfolding botExecuteExitTrade_def
    by (rule exitLoop_no_wait) (simp add: tradingExec_def)
  then show ?thesis by (simp add: sample_failed_ladder)
qed

end
